theory Spec2Isabelle
  imports Complex_Main
begin

text \<open>
  The expense tracker is one React component, \<open>ExpenseScreen\<close>, kept in two source
  files: \<open>src/ExpenseScreen.js\<close>, and a second file (\<open>src/unnamed/part_000\<close>) that adds
  the entry form, alerts, \<open>try\<close>/\<open>catch\<close>, editing of a row and the cancelling of an
  edit. \<open>ExpenseScreen.js\<close> defines the save handler but renders no form and no button
  that calls it. The filter
  and the totals are the same text in both. Where the two files differ, a definition
  carries the suffix \<open>ES\<close> for \<open>ExpenseScreen.js\<close> and \<open>P0\<close> for the second file.

  The component's state cells, the table and the clock are explicit arguments; the
  language's own operations the program calls (\<open>parseFloat\<close>, \<open>trim\<close>, \<open>+\<close> on numbers,
  \<open>Date\<close>, property access on an object literal, \<open>Object.entries\<close>) are modelled beside
  it, as far as the program uses them.
\<close>

section \<open>JavaScript numbers\<close>

text \<open>
  A JavaScript number is an IEEE 754 binary64 value. \<open>Fin m e\<close> stands for the finite
  value \<open>m * 2 ^ e\<close>, kept normalised: \<open>m\<close> is odd, or the value is zero and is
  written \<open>Fin 0 0\<close>. The two zeros are not told apart: nothing in the program
  divides by an amount or reads its sign bit.
\<close>

datatype number = NaN | PInf | NInf | Fin int int

fun bits :: "nat \<Rightarrow> nat" where
  "bits n = (if n = 0 then 0 else Suc (bits (n div 2)))"

declare bits.simps [simp del]

function norm :: "nat \<Rightarrow> int \<Rightarrow> nat \<times> int" where
  "norm m e = (if m = 0 then (0, 0)
               else if even m then norm (m div 2) (e + 1)
               else (m, e))"
  by pat_completeness auto
termination
  by (relation "measure fst") auto

declare norm.simps [simp del]

text \<open>
  \<open>mk neg m e\<close> is the number of sign \<open>neg\<close> and magnitude \<open>m * 2 ^ e\<close>, for a
  magnitude that needs at most 53 significant bits; magnitudes from \<open>2 ^ 1024\<close> on are
  the infinities.
\<close>

definition mk :: "bool \<Rightarrow> nat \<Rightarrow> int \<Rightarrow> number" where
  "mk neg m e =
     (case norm m e of (m', e') \<Rightarrow>
        if 1024 < int (bits m') + e' then (if neg then NInf else PInf)
        else Fin (if neg then - int m' else int m') e')"

text \<open>Round \<open>num / den\<close> to the nearest integer, ties to the even one.\<close>

definition rte :: "nat \<Rightarrow> nat \<Rightarrow> nat" where
  "rte num den =
     (let q = num div den; r = num mod den
      in if 2 * r < den then q
         else if den < 2 * r then q + 1
         else if even q then q else q + 1)"

text \<open>
  \<open>round_frac neg a d\<close> is the binary64 value nearest to \<open>a / d\<close> (for \<open>a, d > 0\<close>):
  53 significant bits, or the multiples of \<open>2 ^ - 1074\<close> in the subnormal range.
\<close>

definition round_frac :: "bool \<Rightarrow> nat \<Rightarrow> nat \<Rightarrow> number" where
  "round_frac neg a d =
     (let k0 = int (bits a) - int (bits d) - 53;
          k = max k0 (- 1074);
          num = (if 0 \<le> k then a else a * 2 ^ nat (- k));
          den = (if 0 \<le> k then d * 2 ^ nat k else d);
          up = (2 ^ 53 \<le> num div den);
          den' = (if up then 2 * den else den);
          k' = (if up then k + 1 else k)
      in mk neg (rte num den') k')"

text \<open>
  The \<open>+\<close> of two numbers: the exact sum of two finite values is a multiple of
  \<open>2 ^ min e1 e2\<close>; it is the result when it fits 53 bits, and is rounded to 53 bits,
  ties to even, otherwise.
\<close>

fun jsadd :: "number \<Rightarrow> number \<Rightarrow> number" where
  "jsadd (Fin m1 e1) (Fin m2 e2) =
     (let e = min e1 e2;
          M = m1 * 2 ^ nat (e1 - e) + m2 * 2 ^ nat (e2 - e);
          a = nat \<bar>M\<bar>;
          b = bits a
      in if b \<le> 53 then mk (M < 0) a e
         else mk (M < 0) (rte a (2 ^ (b - 53))) (e + int (b - 53)))"
| "jsadd NaN _ = NaN"
| "jsadd _ NaN = NaN"
| "jsadd PInf NInf = NaN"
| "jsadd NInf PInf = NaN"
| "jsadd PInf _ = PInf"
| "jsadd _ PInf = PInf"
| "jsadd NInf _ = NInf"
| "jsadd _ NInf = NInf"

fun isNaN :: "number \<Rightarrow> bool" where
  "isNaN NaN = True"
| "isNaN _ = False"

text \<open>\<open>x <= 0\<close>; a comparison with \<open>NaN\<close> is false.\<close>

fun le_zero :: "number \<Rightarrow> bool" where
  "le_zero NaN = False"
| "le_zero PInf = False"
| "le_zero NInf = True"
| "le_zero (Fin m e) = (m \<le> 0)"

text \<open>A number is falsy when it is zero or \<open>NaN\<close>.\<close>

fun falsy :: "number \<Rightarrow> bool" where
  "falsy NaN = True"
| "falsy (Fin m e) = (m = 0)"
| "falsy _ = False"

text \<open>The rational value of a finite number.\<close>

fun rat_of :: "number \<Rightarrow> rat option" where
  "rat_of (Fin m e) = Some (if 0 \<le> e then of_int m * 2 ^ nat e else of_int m / 2 ^ nat (- e))"
| "rat_of _ = None"

section \<open>Strings: \<open>trim\<close> and \<open>parseFloat\<close>\<close>

text \<open>
  Strings are lists of code units below 256. White space and line terminators in that
  range are TAB, LF, VT, FF, CR, SP and NBSP.
\<close>

definition isWhiteSpace :: "char \<Rightarrow> bool" where
  "isWhiteSpace c = (c \<in> set [CHR 0x09, CHR 0x0A, CHR 0x0B, CHR 0x0C, CHR 0x0D, CHR 0x20, CHR 0xA0])"

definition trimStart :: "string \<Rightarrow> string" where
  "trimStart s = dropWhile isWhiteSpace s"

definition trimEnd :: "string \<Rightarrow> string" where
  "trimEnd s = rev (dropWhile isWhiteSpace (rev s))"

definition trim :: "string \<Rightarrow> string" where
  "trim s = trimEnd (trimStart s)"

definition isDigit :: "char \<Rightarrow> bool" where
  "isDigit c = (c \<in> set ''0123456789'')"

definition digitVal :: "char \<Rightarrow> nat" where
  "digitVal c = of_char c - 48"

definition decimalDigits :: "string \<Rightarrow> nat" where
  "decimalDigits ds = foldl (\<lambda>n c. 10 * n + digitVal c) 0 ds"

text \<open>The number nearest to \<open>n * 10 ^ x\<close>, with the sign \<open>neg\<close>.\<close>

definition decimal :: "bool \<Rightarrow> nat \<Rightarrow> int \<Rightarrow> number" where
  "decimal neg n x =
     (if n = 0 then Fin 0 0
      else if 0 \<le> x then round_frac neg (n * 10 ^ nat x) 1
      else round_frac neg n (10 ^ nat (- x)))"

text \<open>
  The exponent part at the head of a string: \<open>e\<close> or \<open>E\<close>, an optional sign, and at
  least one digit. A string that does not start with one contributes the exponent 0
  (\<open>parseFloat\<close> reads the longest prefix that is a literal).
\<close>

definition exponentPart :: "string \<Rightarrow> int" where
  "exponentPart r =
     (case r of
        [] \<Rightarrow> 0
      | c # t \<Rightarrow>
          if c = CHR ''e'' \<or> c = CHR ''E'' then
            (case t of
               [] \<Rightarrow> 0
             | sg # u \<Rightarrow>
                 if sg = CHR ''-'' then
                   (if takeWhile isDigit u = [] then 0
                    else - int (decimalDigits (takeWhile isDigit u)))
                 else if sg = CHR ''+'' then int (decimalDigits (takeWhile isDigit u))
                 else int (decimalDigits (takeWhile isDigit t)))
          else 0)"

text \<open>The longest prefix that is an unsigned decimal literal, as a number.\<close>

definition strUnsignedDecimalLiteral :: "bool \<Rightarrow> string \<Rightarrow> number" where
  "strUnsignedDecimalLiteral neg s =
     (if take 8 s = ''Infinity'' then (if neg then NInf else PInf)
      else
        let ip = takeWhile isDigit s;
            r1 = dropWhile isDigit s;
            fp = (case r1 of [] \<Rightarrow> [] | c # t \<Rightarrow> if c = CHR ''.'' then takeWhile isDigit t else []);
            r2 = (case r1 of [] \<Rightarrow> [] | c # t \<Rightarrow> if c = CHR ''.'' then dropWhile isDigit t else r1)
        in if ip = [] \<and> fp = [] then NaN
           else decimal neg (decimalDigits (ip @ fp)) (exponentPart r2 - int (length fp)))"

definition parseFloat :: "string \<Rightarrow> number" where
  "parseFloat s =
     (case trimStart s of
        [] \<Rightarrow> NaN
      | c # t \<Rightarrow>
          if c = CHR ''+'' then strUnsignedDecimalLiteral False t
          else if c = CHR ''-'' then strUnsignedDecimalLiteral True t
          else strUnsignedDecimalLiteral False (c # t))"

section \<open>Dates\<close>

text \<open>
  A time value is a number of milliseconds since 1970-01-01T00:00:00Z. The local time
  zone is a fixed offset \<open>tz\<close> in minutes east of UTC (daylight saving changes are not
  modelled). The calendar functions are those of the language standard: \<open>Day\<close>,
  \<open>TimeWithinDay\<close>, \<open>YearFromTime\<close>, \<open>MonthFromTime\<close> (0 = January),
  \<open>DateFromTime\<close>, \<open>WeekDay\<close> (0 = Sunday), \<open>MakeDay\<close>, \<open>MakeTime\<close>, \<open>MakeDate\<close>.
\<close>

definition msPerDay :: int where
  "msPerDay = 86400000"

definition Day :: "int \<Rightarrow> int" where
  "Day t = t div msPerDay"

definition TimeWithinDay :: "int \<Rightarrow> int" where
  "TimeWithinDay t = t mod msPerDay"

text \<open>The civil date (year, month 1..12, day 1..31) of a day number, and back.\<close>

definition civil_of_m :: "int \<Rightarrow> int \<Rightarrow> int \<Rightarrow> int \<times> int \<times> int" where
  "civil_of_m y d m = (if m \<le> 2 then y + 1 else y, m, d)"

definition civil_of_mp :: "int \<Rightarrow> int \<Rightarrow> int \<Rightarrow> int \<times> int \<times> int" where
  "civil_of_mp y doy mp =
     civil_of_m y (doy - (153 * mp + 2) div 5 + 1) (if mp < 10 then mp + 3 else mp - 9)"

definition civil_of_yoe :: "int \<Rightarrow> int \<Rightarrow> int \<Rightarrow> int \<times> int \<times> int" where
  "civil_of_yoe era doe yoe =
     civil_of_mp (yoe + era * 400) (doe - (365 * yoe + yoe div 4 - yoe div 100))
       ((5 * (doe - (365 * yoe + yoe div 4 - yoe div 100)) + 2) div 153)"

definition civil_of_doe :: "int \<Rightarrow> int \<Rightarrow> int \<times> int \<times> int" where
  "civil_of_doe era doe =
     civil_of_yoe era doe ((doe - doe div 1460 + doe div 36524 - doe div 146096) div 365)"

definition civil_from_days :: "int \<Rightarrow> int \<times> int \<times> int" where
  "civil_from_days z = civil_of_doe ((z + 719468) div 146097) ((z + 719468) mod 146097)"

definition days_from_civil :: "int \<Rightarrow> int \<Rightarrow> int \<Rightarrow> int" where
  "days_from_civil y m d =
     ((if m \<le> 2 then y - 1 else y) div 400) * 146097
       + ((if m \<le> 2 then y - 1 else y) mod 400) * 365
       + ((if m \<le> 2 then y - 1 else y) mod 400) div 4
       - ((if m \<le> 2 then y - 1 else y) mod 400) div 100
       + (153 * (if 2 < m then m - 3 else m + 9) + 2) div 5 + d - 1 - 719468"

definition YearFromTime :: "int \<Rightarrow> int" where
  "YearFromTime t = fst (civil_from_days (Day t))"

definition MonthFromTime :: "int \<Rightarrow> int" where
  "MonthFromTime t = fst (snd (civil_from_days (Day t))) - 1"

definition DateFromTime :: "int \<Rightarrow> int" where
  "DateFromTime t = snd (snd (civil_from_days (Day t)))"

definition WeekDay :: "int \<Rightarrow> int" where
  "WeekDay t = (Day t + 4) mod 7"

definition MakeDay :: "int \<Rightarrow> int \<Rightarrow> int \<Rightarrow> int" where
  "MakeDay year month dt =
     days_from_civil (year + month div 12) (month mod 12 + 1) 1 + dt - 1"

definition MakeTime :: "int \<Rightarrow> int \<Rightarrow> int \<Rightarrow> int \<Rightarrow> int" where
  "MakeTime h m s ms = h * 3600000 + m * 60000 + s * 1000 + ms"

definition MakeDate :: "int \<Rightarrow> int \<Rightarrow> int" where
  "MakeDate day time = day * msPerDay + time"

definition LocalTime :: "int \<Rightarrow> int \<Rightarrow> int" where
  "LocalTime tz t = t + tz * 60000"

definition UTC :: "int \<Rightarrow> int \<Rightarrow> int" where
  "UTC tz t = t - tz * 60000"

text \<open>The methods of \<open>Date\<close> the program calls, on a valid date with time value \<open>t\<close>.\<close>

definition getFullYear :: "int \<Rightarrow> int \<Rightarrow> int" where
  "getFullYear tz t = YearFromTime (LocalTime tz t)"

definition getMonth :: "int \<Rightarrow> int \<Rightarrow> int" where
  "getMonth tz t = MonthFromTime (LocalTime tz t)"

definition getDate :: "int \<Rightarrow> int \<Rightarrow> int" where
  "getDate tz t = DateFromTime (LocalTime tz t)"

definition getDay :: "int \<Rightarrow> int \<Rightarrow> int" where
  "getDay tz t = WeekDay (LocalTime tz t)"

definition setDate :: "int \<Rightarrow> int \<Rightarrow> int \<Rightarrow> int" where
  "setDate tz t dt =
     UTC tz (MakeDate (MakeDay (YearFromTime (LocalTime tz t)) (MonthFromTime (LocalTime tz t)) dt)
               (TimeWithinDay (LocalTime tz t)))"

definition setHours :: "int \<Rightarrow> int \<Rightarrow> int \<Rightarrow> int \<Rightarrow> int \<Rightarrow> int \<Rightarrow> int" where
  "setHours tz t h m s ms = UTC tz (MakeDate (Day (LocalTime tz t)) (MakeTime h m s ms))"

text \<open>
  \<open>new Date(string)\<close>. The date-only forms of the standard's date-time format, \<open>YYYY\<close>,
  \<open>YYYY-MM\<close> and \<open>YYYY-MM-DD\<close>, denote midnight UTC of that day. Every other string
  (the forms with a time of day, a day beyond the length of its month, and what an
  engine accepts beyond the standard) is left to the parameter \<open>legacy\<close>; \<open>None\<close> is
  the invalid date.
\<close>

definition daysInMonth :: "int \<Rightarrow> int \<Rightarrow> int" where
  "daysInMonth y m =
     (if m = 2 then (if y mod 4 = 0 \<and> (y mod 400 = 0 \<or> y mod 100 \<noteq> 0) then 29 else 28)
      else if m = 4 \<or> m = 6 \<or> m = 9 \<or> m = 11 then 30 else 31)"

definition isoYMD :: "int \<Rightarrow> int \<Rightarrow> int \<Rightarrow> int option" where
  "isoYMD y m d =
     (if 1 \<le> m \<and> m \<le> 12 \<and> 1 \<le> d \<and> d \<le> daysInMonth y m
      then Some (days_from_civil y m d * msPerDay) else None)"

definition isoDate :: "string \<Rightarrow> string \<Rightarrow> string \<Rightarrow> int option" where
  "isoDate ys ms ds =
     (if length ys = 4 \<and> length ms = 2 \<and> length ds = 2 \<and> list_all isDigit (ys @ ms @ ds)
      then isoYMD (int (decimalDigits ys)) (int (decimalDigits ms)) (int (decimalDigits ds))
      else None)"

definition isoDateOnly :: "string \<Rightarrow> int option" where
  "isoDateOnly s =
     (if length s = 4 then isoDate s ''01'' ''01''
      else if length s = 7 \<and> s ! 4 = CHR ''-''
        then isoDate (take 4 s) (drop 5 s) ''01''
      else if length s = 10 \<and> s ! 4 = CHR ''-'' \<and> s ! 7 = CHR ''-''
        then isoDate (take 4 s) (take 2 (drop 5 s)) (drop 8 s)
      else None)"

definition Date_parse :: "(string \<Rightarrow> int option) \<Rightarrow> string \<Rightarrow> int option" where
  "Date_parse legacy s = (case isoDateOnly s of Some t \<Rightarrow> Some t | None \<Rightarrow> legacy s)"

text \<open>Decimal output of integers, \<open>padStart(2, '0')\<close>, and \<open>getTodayString\<close>.\<close>

definition digitChar :: "nat \<Rightarrow> char" where
  "digitChar n = ''0123456789'' ! n"

fun showNat :: "nat \<Rightarrow> string" where
  "showNat n = (if n < 10 then [digitChar n]
                else showNat (n div 10) @ [digitChar (n mod 10)])"

declare showNat.simps [simp del]

definition showInt :: "int \<Rightarrow> string" where
  "showInt i = (if i < 0 then CHR ''-'' # showNat (nat (- i)) else showNat (nat i))"

definition padStart2 :: "string \<Rightarrow> string" where
  "padStart2 s = replicate (2 - length s) CHR ''0'' @ s"

definition getTodayString :: "int \<Rightarrow> int \<Rightarrow> string" where
  "getTodayString tz now =
     showInt (getFullYear tz now) @ ''-'' @ padStart2 (showInt (getMonth tz now + 1))
       @ ''-'' @ padStart2 (showInt (getDate tz now))"

section \<open>Expense records and the filter\<close>

text \<open>
  A row of the table \<open>expenses\<close>. The column \<open>note\<close> is nullable; a table created
  before the column \<open>date\<close> was added yields rows without that field, so \<open>exp_date\<close> is
  optional too.
\<close>

record expense =
  exp_id :: int
  exp_amount :: number
  exp_category :: string
  exp_note :: "string option"
  exp_date :: "string option"

text \<open>\<open>getFilteredExpenses\<close>, the same text in both source files.\<close>

definition inMonth :: "(string \<Rightarrow> int option) \<Rightarrow> int \<Rightarrow> int \<Rightarrow> expense \<Rightarrow> bool" where
  "inMonth legacy tz today x =
     (case exp_date x of
        None \<Rightarrow> False
      | Some s \<Rightarrow>
          if s = [] then False
          else (case Date_parse legacy s of
                  None \<Rightarrow> False
                | Some d \<Rightarrow> getFullYear tz d = getFullYear tz today
                            \<and> getMonth tz d = getMonth tz today))"

definition startOfWeek :: "int \<Rightarrow> int \<Rightarrow> int" where
  "startOfWeek tz today =
     setHours tz (setDate tz today (getDate tz today - getDay tz today)) 0 0 0 0"

definition endOfWeek :: "int \<Rightarrow> int \<Rightarrow> int" where
  "endOfWeek tz today =
     setHours tz (setDate tz (startOfWeek tz today) (getDate tz (startOfWeek tz today) + 6))
       23 59 59 999"

definition inWeek :: "(string \<Rightarrow> int option) \<Rightarrow> int \<Rightarrow> int \<Rightarrow> expense \<Rightarrow> bool" where
  "inWeek legacy tz today x =
     (case exp_date x of
        None \<Rightarrow> False
      | Some s \<Rightarrow>
          if s = [] then False
          else (case Date_parse legacy s of
                  None \<Rightarrow> False
                | Some d \<Rightarrow> startOfWeek tz today \<le> d \<and> d \<le> endOfWeek tz today))"

definition getFilteredExpenses ::
  "(string \<Rightarrow> int option) \<Rightarrow> int \<Rightarrow> int \<Rightarrow> string \<Rightarrow> expense list \<Rightarrow> expense list" where
  "getFilteredExpenses legacy tz today flt expenses =
     (if flt = ''ALL'' then expenses
      else if flt = ''MONTH'' then filter (inMonth legacy tz today) expenses
      else if flt = ''WEEK'' then filter (inWeek legacy tz today) expenses
      else expenses)"

section \<open>The table \<open>expenses\<close>\<close>

text \<open>
  The table holds its rows and the largest id handed out so far (the column \<open>id\<close> is
  \<open>INTEGER PRIMARY KEY AUTOINCREMENT\<close>). \<open>has_date\<close> is false for a table created
  before the column \<open>date\<close> existed: \<open>CREATE TABLE IF NOT EXISTS\<close> leaves such a table
  as it is, and a statement that names the column fails there. Other failures of the
  storage medium are not modelled.
\<close>

datatype error = NoSuchColumn

record db =
  rows :: "expense list"
  seq :: int
  has_date :: bool

datatype stmt =
  Insert number string "string option" string
  | Update number string "string option" string int
  | Delete int

definition nextId :: "db \<Rightarrow> int" where
  "nextId d = fold max (map exp_id (rows d)) (seq d) + 1"

fun runAsync :: "stmt \<Rightarrow> db \<Rightarrow> error + db" where
  "runAsync (Insert a c n dt) d =
     (if has_date d
      then Inr (d\<lparr>rows := rows d @ [\<lparr>exp_id = nextId d, exp_amount = a, exp_category = c,
                                        exp_note = n, exp_date = Some dt\<rparr>],
                 seq := nextId d\<rparr>)
      else Inl NoSuchColumn)"
| "runAsync (Update a c n dt i) d =
     (if has_date d
      then Inr (d\<lparr>rows := map (\<lambda>r. if exp_id r = i
                                    then r\<lparr>exp_amount := a, exp_category := c,
                                           exp_note := n, exp_date := Some dt\<rparr>
                                    else r) (rows d)\<rparr>)
      else Inl NoSuchColumn)"
| "runAsync (Delete i) d = Inr (d\<lparr>rows := filter (\<lambda>r. exp_id r \<noteq> i) (rows d)\<rparr>)"

text \<open>\<open>SELECT * FROM expenses ORDER BY id DESC\<close>.\<close>

definition getAllAsync :: "db \<Rightarrow> expense list" where
  "getAllAsync d = rev (sort_key exp_id (rows d))"

section \<open>The screen: state and handlers\<close>

text \<open>
  The state of the component: the \<open>useState\<close> cells. \<open>editingId = None\<close> is
  \<open>null\<close>, the state Idle; \<open>Some i\<close> is the state Editing(i).
\<close>

record state =
  expenses :: "expense list"
  amount :: string
  category :: string
  noteS :: string
  filterS :: string
  editingId :: "int option"

text \<open>
  What a handler lets the outside observe: alerts, console errors, and the rejection
  of the handler's promise by an exception nobody catches. A handler returns the new
  state, the table, the signals it raised and the statements it sent to the table.
\<close>

datatype signal = Alert string string | ConsoleError string | Rejected error

record outcome =
  ui :: state
  store :: db
  signals :: "signal list"
  issued :: "stmt list"

text \<open>
  \<open>loadExpenses\<close>. Reading the table does not fail in this model, so the \<open>catch\<close> the
  second file puts around the query is never entered.
\<close>

definition loadExpenses :: "state \<Rightarrow> db \<Rightarrow> state" where
  "loadExpenses s d = s\<lparr>expenses := getAllAsync d\<rparr>"

text \<open>\<open>existing?.date || getTodayString()\<close>.\<close>

definition dateToUse :: "int \<Rightarrow> int \<Rightarrow> state \<Rightarrow> string" where
  "dateToUse tz now s =
     (case find (\<lambda>e. Some (exp_id e) = editingId s) (expenses s) of
        None \<Rightarrow> getTodayString tz now
      | Some e \<Rightarrow>
          (case exp_date e of
             None \<Rightarrow> getTodayString tz now
           | Some dt \<Rightarrow> if dt = [] then getTodayString tz now else dt))"

text \<open>The statement both files send once the input is accepted.\<close>

definition saveStmt :: "int \<Rightarrow> int \<Rightarrow> state \<Rightarrow> number \<Rightarrow> stmt" where
  "saveStmt tz now s amountNumber =
     (let trimmedCategory = trim (category s);
          trimmedNote = trim (noteS s);
          noteOrNull = (if trimmedNote = [] then None else Some trimmedNote)
      in case editingId s of
           None \<Rightarrow> Insert amountNumber trimmedCategory noteOrNull (dateToUse tz now s)
         | Some i \<Rightarrow> Update amountNumber trimmedCategory noteOrNull (dateToUse tz now s) i)"

definition resetForm :: "state \<Rightarrow> state" where
  "resetForm s = s\<lparr>amount := [], category := [], noteS := [], editingId := None\<rparr>"

text \<open>\<open>handleSaveExpense\<close> of \<open>ExpenseScreen.js\<close>: no alert, no \<open>try\<close>.\<close>

definition handleSaveExpense_ES :: "int \<Rightarrow> int \<Rightarrow> state \<Rightarrow> db \<Rightarrow> outcome" where
  "handleSaveExpense_ES tz now s d =
     (let amountNumber = parseFloat (amount s)
      in if isNaN amountNumber \<or> le_zero amountNumber
         then \<lparr>ui = s, store = d, signals = [], issued = []\<rparr>
         else if trim (category s) = []
         then \<lparr>ui = s, store = d, signals = [], issued = []\<rparr>
         else (case runAsync (saveStmt tz now s amountNumber) d of
                 Inl err \<Rightarrow> \<lparr>ui = s, store = d, signals = [Rejected err],
                             issued = [saveStmt tz now s amountNumber]\<rparr>
               | Inr d' \<Rightarrow> \<lparr>ui = loadExpenses (resetForm s) d', store = d', signals = [],
                            issued = [saveStmt tz now s amountNumber]\<rparr>))"

text \<open>\<open>handleSaveExpense\<close> of the second file: field checks, alerts, \<open>try\<close>/\<open>catch\<close>.\<close>

definition saveFailedText :: string where
  "saveFailedText = ''Saving the expense failed. If you see an error like \"no such column: date\" in Metro, you need to reset the app database (uninstall app or clear data) so the new table schema with the date column is used.''"

definition handleSaveExpense_P0 :: "int \<Rightarrow> int \<Rightarrow> state \<Rightarrow> db \<Rightarrow> outcome" where
  "handleSaveExpense_P0 tz now s d =
     (if trim (amount s) = []
      then \<lparr>ui = s, store = d,
            signals = [Alert ''Missing amount'' ''Please enter an amount before saving.''],
            issued = []\<rparr>
      else if trim (category s) = []
      then \<lparr>ui = s, store = d,
            signals = [Alert ''Missing category'' ''Please enter a category before saving.''],
            issued = []\<rparr>
      else let amountNumber = parseFloat (amount s)
      in if isNaN amountNumber \<or> le_zero amountNumber
         then \<lparr>ui = s, store = d,
               signals = [Alert ''Invalid amount'' ''Amount must be a number greater than 0.''],
               issued = []\<rparr>
         else (case runAsync (saveStmt tz now s amountNumber) d of
                 Inl err \<Rightarrow> \<lparr>ui = s, store = d,
                             signals = [ConsoleError ''Error saving expense:'',
                                        Alert ''Save failed'' saveFailedText],
                             issued = [saveStmt tz now s amountNumber]\<rparr>
               | Inr d' \<Rightarrow> \<lparr>ui = loadExpenses (resetForm s) d', store = d', signals = [],
                            issued = [saveStmt tz now s amountNumber]\<rparr>))"

text \<open>\<open>deleteExpense\<close> of \<open>ExpenseScreen.js\<close>.\<close>

definition deleteExpense_ES :: "int \<Rightarrow> state \<Rightarrow> db \<Rightarrow> outcome" where
  "deleteExpense_ES i s d =
     (case runAsync (Delete i) d of
        Inl err \<Rightarrow> \<lparr>ui = s, store = d, signals = [Rejected err], issued = [Delete i]\<rparr>
      | Inr d' \<Rightarrow> \<lparr>ui = loadExpenses s d', store = d', signals = [], issued = [Delete i]\<rparr>)"

text \<open>\<open>deleteExpense\<close> of the second file: "Delete expense and cancel edit if needed".\<close>

definition deleteExpense_P0 :: "int \<Rightarrow> state \<Rightarrow> db \<Rightarrow> outcome" where
  "deleteExpense_P0 i s d =
     (let s1 = (if editingId s = Some i then resetForm s else s)
      in case runAsync (Delete i) d of
           Inl err \<Rightarrow> \<lparr>ui = s1, store = d,
                       signals = [ConsoleError ''Error deleting expense:'',
                                  Alert ''Error'' ''Failed to delete expense.''],
                       issued = [Delete i]\<rparr>
         | Inr d' \<Rightarrow> \<lparr>ui = loadExpenses s1 d', store = d', signals = [], issued = [Delete i]\<rparr>)"

text \<open>
  \<open>startEditExpense\<close>; \<open>toStr\<close> is \<open>String\<close> on numbers. The second file calls it when
  a row of the list is pressed; \<open>ExpenseScreen.js\<close> defines it and never calls it.
\<close>

definition startEditExpense :: "(number \<Rightarrow> string) \<Rightarrow> expense \<Rightarrow> state \<Rightarrow> state" where
  "startEditExpense toStr e s =
     s\<lparr>editingId := Some (exp_id e), amount := toStr (exp_amount e),
       category := exp_category e,
       noteS := (case exp_note e of None \<Rightarrow> [] | Some n \<Rightarrow> n)\<rparr>"

text \<open>The validation failures the specification names.\<close>

definition validation_fails :: "string \<Rightarrow> string \<Rightarrow> bool" where
  "validation_fails amount_text category_text =
     (isNaN (parseFloat amount_text) \<or> le_zero (parseFloat amount_text)
      \<or> trim category_text = [])"

section \<open>Totals\<close>

text \<open>\<open>Number(exp.amount || 0)\<close>.\<close>

definition amt :: "expense \<Rightarrow> number" where
  "amt x = (if falsy (exp_amount x) then Fin 0 0 else exp_amount x)"

definition totalSpending :: "expense list \<Rightarrow> number" where
  "totalSpending xs = foldl (\<lambda>acc x. jsadd acc (amt x)) (Fin 0 0) xs"

text \<open>
  \<open>categoryTotals\<close> is an object literal \<open>{}\<close>: its own properties, in the order of
  their creation, and behind them the properties of \<open>Object.prototype\<close>. Reading a
  key that is not an own property finds an inherited function under the names of
  \<open>objectPrototypeFunctions\<close>, and \<open>undefined\<close> under any other name; \<open>__proto__\<close> is
  an accessor of the prototype, which reads as the prototype object and ignores the
  assignment of a number or a string.
\<close>

datatype jsval = Undefined | Num number | Str | Function | ObjectPrototype

type_synonym obj = "(string \<times> jsval) list"

definition objectPrototypeFunctions :: "string list" where
  "objectPrototypeFunctions =
     [''constructor'', ''__defineGetter__'', ''__defineSetter__'', ''hasOwnProperty'',
      ''__lookupGetter__'', ''__lookupSetter__'', ''isPrototypeOf'',
      ''propertyIsEnumerable'', ''toString'', ''valueOf'', ''toLocaleString'']"

definition inherited :: "string \<Rightarrow> bool" where
  "inherited k = (k = ''__proto__'' \<or> k \<in> set objectPrototypeFunctions)"

definition getProp :: "obj \<Rightarrow> string \<Rightarrow> jsval" where
  "getProp ob k =
     (if k = ''__proto__'' then ObjectPrototype
      else case map_of ob k of
             Some v \<Rightarrow> v
           | None \<Rightarrow> if k \<in> set objectPrototypeFunctions then Function else Undefined)"

fun putOwn :: "(string \<times> 'a) list \<Rightarrow> string \<Rightarrow> 'a \<Rightarrow> (string \<times> 'a) list" where
  "putOwn [] k v = [(k, v)]"
| "putOwn (p # ps) k v = (if fst p = k then (k, v) # ps else p # putOwn ps k v)"

text \<open>Assignment of a number or a string to a property.\<close>

definition setProp :: "obj \<Rightarrow> string \<Rightarrow> jsval \<Rightarrow> obj" where
  "setProp ob k v = (if k = ''__proto__'' then ob else putOwn ob k v)"

text \<open>
  Truthiness. \<open>Str\<close> stands for the strings the loop can produce: the text of a
  function or of an object followed by the digits of a number, never empty.
\<close>

fun truthy :: "jsval \<Rightarrow> bool" where
  "truthy Undefined = False"
| "truthy (Num n) = (\<not> falsy n)"
| "truthy _ = True"

text \<open>\<open>v + amt\<close> for a number \<open>amt\<close>: addition on numbers, concatenation otherwise.\<close>

fun plus_number :: "jsval \<Rightarrow> number \<Rightarrow> jsval" where
  "plus_number (Num a) b = Num (jsadd a b)"
| "plus_number Undefined b = Num NaN"
| "plus_number _ b = Str"

text \<open>\<open>exp.category || 'Uncategorized'\<close>.\<close>

definition cat :: "expense \<Rightarrow> string" where
  "cat x = (if exp_category x = [] then ''Uncategorized'' else exp_category x)"

text \<open>The body of the \<open>forEach\<close>.\<close>

definition initCategory :: "obj \<Rightarrow> string \<Rightarrow> obj" where
  "initCategory ob k = (if \<not> truthy (getProp ob k) then setProp ob k (Num (Fin 0 0)) else ob)"

definition addToCategory :: "obj \<Rightarrow> expense \<Rightarrow> obj" where
  "addToCategory ob x =
     setProp (initCategory ob (cat x)) (cat x)
       (plus_number (getProp (initCategory ob (cat x)) (cat x)) (amt x))"

definition categoryTotals :: "expense list \<Rightarrow> obj" where
  "categoryTotals xs = foldl addToCategory [] xs"

text \<open>
  \<open>Object.entries\<close> lists the own properties: first the keys that are array indices
  (canonical decimal numerals below \<open>2 ^ 32 - 1\<close>) in ascending numeric order, then
  the other keys in the order of their creation.
\<close>

definition isArrayIndex :: "string \<Rightarrow> bool" where
  "isArrayIndex k =
     (k \<noteq> [] \<and> list_all isDigit k \<and> (k = ''0'' \<or> hd k \<noteq> CHR ''0'')
      \<and> decimalDigits k < 2 ^ 32 - 1)"

definition Object_entries :: "(string \<times> 'a) list \<Rightarrow> (string \<times> 'a) list" where
  "Object_entries ob =
     sort_key (\<lambda>p. decimalDigits (fst p)) (filter (\<lambda>p. isArrayIndex (fst p)) ob)
       @ filter (\<lambda>p. \<not> isArrayIndex (fst p)) ob"

text \<open>
  The summary card renders one line per entry with \<open>total.toFixed(2)\<close>; \<open>toFixed\<close> is
  a method of numbers (the parameter \<open>toFixed2\<close>), and calling it on a string throws a
  \<open>TypeError\<close>, which ends the rendering.
\<close>

datatype render_error = TypeError

fun summaryLines :: "(number \<Rightarrow> string) \<Rightarrow> obj \<Rightarrow> render_error + string list" where
  "summaryLines toFixed2 [] = Inr []"
| "summaryLines toFixed2 ((k, Num n) # ps) =
     (case summaryLines toFixed2 ps of
        Inl err \<Rightarrow> Inl err
      | Inr ls \<Rightarrow> Inr ((k @ '': $'' @ toFixed2 n) # ls))"
| "summaryLines toFixed2 ((k, v) # ps) = Inl TypeError"

text \<open>
  The order of first appearance of the elements of a list, and the sum of the
  per-category subtotals as the program would add them,
  \<open>Object.values(categoryTotals).reduce((a, b) => a + b, 0)\<close>; both serve to state
  properties of the totals.
\<close>

definition firstAppearances :: "'a list \<Rightarrow> 'a list" where
  "firstAppearances xs = rev (remdups (rev xs))"

fun plus_val :: "jsval \<Rightarrow> jsval \<Rightarrow> jsval" where
  "plus_val (Num a) (Num b) = Num (jsadd a b)"
| "plus_val _ _ = Str"

definition sumOfSubtotals :: "obj \<Rightarrow> jsval" where
  "sumOfSubtotals ob = foldl plus_val (Num (Fin 0 0)) (map snd (Object_entries ob))"

section \<open>Reading a statement, and example states\<close>

fun stmt_amount :: "stmt \<Rightarrow> number option" where
  "stmt_amount (Insert a c n dt) = Some a"
| "stmt_amount (Update a c n dt i) = Some a"
| "stmt_amount (Delete i) = None"

fun stmt_category :: "stmt \<Rightarrow> string option" where
  "stmt_category (Insert a c n dt) = Some c"
| "stmt_category (Update a c n dt i) = Some c"
| "stmt_category (Delete i) = None"

text \<open>An empty table, and the form filled with a text that is no number and with a valid entry.\<close>

definition db0 :: db where
  "db0 = \<lparr>rows = [], seq = 0, has_date = True\<rparr>"

definition form0 :: state where
  "form0 = \<lparr>expenses = [], amount = ''abc'', category = ''Food'', noteS = [],
            filterS = ''ALL'', editingId = None\<rparr>"

definition form1 :: state where
  "form1 = \<lparr>expenses = [], amount = ''12.50'', category = '' Food '', noteS = '' '',
            filterS = ''ALL'', editingId = None\<rparr>"

text \<open>Records that differ in their date only, and an engine with no date format of its own.\<close>

definition dated :: "int \<Rightarrow> string option \<Rightarrow> expense" where
  "dated i dt = \<lparr>exp_id = i, exp_amount = Fin 25 (- 1), exp_category = ''Food'',
                 exp_note = None, exp_date = dt\<rparr>"

definition noLegacy :: "string \<Rightarrow> int option" where
  "noLegacy s = None"

text \<open>A table with one row, and the screen while that row is edited.\<close>

definition db1 :: db where
  "db1 = \<lparr>rows = [dated 1 (Some ''2024-03-01'')], seq = 1, has_date = True\<rparr>"

definition form2 :: state where
  "form2 = \<lparr>expenses = [dated 1 (Some ''2024-03-01'')], amount = ''20'',
            category = ''Groceries'', noteS = [], filterS = ''ALL'', editingId = Some 1\<rparr>"

text \<open>A record with a given amount text and category.\<close>

definition spent :: "int \<Rightarrow> string \<Rightarrow> string \<Rightarrow> expense" where
  "spent i amount_text c = \<lparr>exp_id = i, exp_amount = parseFloat amount_text, exp_category = c,
                            exp_note = None, exp_date = Some ''2024-03-15''\<rparr>"

section \<open>Notions of the specification\<close>

text \<open>
  The stored date format of the data model, \<open>YYYY-MM-DD\<close>; a date that \<open>new Date\<close>
  does not accept; a date that is present (\<open>exp.date\<close> is truthy).
\<close>

definition spec_date_format :: "string \<Rightarrow> bool" where
  "spec_date_format s =
     (length s = 10 \<and> s ! 4 = CHR ''-'' \<and> s ! 7 = CHR ''-''
      \<and> list_all isDigit (take 4 s @ take 2 (drop 5 s) @ drop 8 s))"

definition unparseable :: "(string \<Rightarrow> int option) \<Rightarrow> string option \<Rightarrow> bool" where
  "unparseable legacy dt =
     (case dt of None \<Rightarrow> True | Some s \<Rightarrow> s = [] \<or> Date_parse legacy s = None)"

definition dateTruthy :: "string option \<Rightarrow> bool" where
  "dateTruthy dt = (case dt of None \<Rightarrow> False | Some s \<Rightarrow> s \<noteq> [])"

text \<open>
  The table as the program leaves it: ids are unique (the primary key) and every row
  has a date. \<open>idDates\<close> lists the stored date of every row.
\<close>

definition wf_db :: "db \<Rightarrow> bool" where
  "wf_db d = (distinct (map exp_id (rows d)) \<and> list_all (\<lambda>r. dateTruthy (exp_date r)) (rows d))"

definition idDates :: "db \<Rightarrow> (int \<times> string option) list" where
  "idDates d = map (\<lambda>r. (exp_id r, exp_date r)) (rows d)"

text \<open>
  The states the screen of the second file reaches: it starts Idle with an empty
  list, loads the list, and then runs its handlers; a row can be pressed for editing
  only when it is in the list.
\<close>

definition initialState :: state where
  "initialState = \<lparr>expenses = [], amount = [], category = [], noteS = [], filterS = ''ALL'',
                    editingId = None\<rparr>"

inductive reachable :: "(number \<Rightarrow> string) \<Rightarrow> state \<Rightarrow> db \<Rightarrow> bool" for toStr where
  r_start: "wf_db d \<Longrightarrow> reachable toStr initialState d"
| r_load: "reachable toStr s d \<Longrightarrow> reachable toStr (loadExpenses s d) d"
| r_typed: "reachable toStr s d \<Longrightarrow>
          reachable toStr (s\<lparr>amount := a, category := c, noteS := n, filterS := f\<rparr>) d"
| r_save: "reachable toStr s d \<Longrightarrow>
         reachable toStr (ui (handleSaveExpense_P0 tz now s d)) (store (handleSaveExpense_P0 tz now s d))"
| r_delete: "reachable toStr s d \<Longrightarrow>
           reachable toStr (ui (deleteExpense_P0 i s d)) (store (deleteExpense_P0 i s d))"
| r_edit: "reachable toStr s d \<Longrightarrow> e \<in> set (expenses s) \<Longrightarrow>
         reachable toStr (startEditExpense toStr e s) d"
| r_cancel: "reachable toStr s d \<Longrightarrow> reachable toStr (resetForm s) d"

text \<open>
  The states the screen of \<open>ExpenseScreen.js\<close> reaches: it renders the filter buttons,
  the summary and the list with a delete button per row, and no form; nothing calls
  its \<open>handleSaveExpense\<close> or its \<open>startEditExpense\<close>.
\<close>

inductive reachable_ES :: "state \<Rightarrow> db \<Rightarrow> bool" where
  e_start: "reachable_ES initialState d"
| e_load: "reachable_ES s d \<Longrightarrow> reachable_ES (loadExpenses s d) d"
| e_filter: "reachable_ES s d \<Longrightarrow> reachable_ES (s\<lparr>filterS := f\<rparr>) d"
| e_delete: "reachable_ES s d \<Longrightarrow>
            reachable_ES (ui (deleteExpense_ES i s d)) (store (deleteExpense_ES i s d))"

definition synced :: "state \<Rightarrow> db \<Rightarrow> bool" where
  "synced s d = (expenses s = getAllAsync d \<or> (expenses s = [] \<and> editingId s = None))"

text \<open>
  Amounts for which the additions are exact: \<open>scaled k n\<close> is the number
  \<open>n * 2 ^ - k\<close> (whole units for \<open>k = 0\<close>, quarters for \<open>k = 2\<close>). \<open>nonneg\<close> holds of
  the numbers that are not negative, \<open>canon\<close> of those among them whose zero is
  written \<open>Fin 0 0\<close>.
\<close>

definition scaled :: "nat \<Rightarrow> nat \<Rightarrow> number" where
  "scaled k n = mk False n (- int k)"

fun nonneg :: "number \<Rightarrow> bool" where
  "nonneg (Fin m e) = (0 \<le> m)"
| "nonneg PInf = True"
| "nonneg _ = False"

definition canon :: "number \<Rightarrow> bool" where
  "canon n = (nonneg n \<and> (falsy n \<longrightarrow> n = Fin 0 0))"

text \<open>
  The object whose subtotals are the numbers \<open>scaled k m\<close>, for a list of keys with
  the multiples \<open>m\<close>; \<open>held\<close> reads the multiple under a key, 0 for a key not there.
\<close>

definition conc :: "nat \<Rightarrow> (string \<times> nat) list \<Rightarrow> obj" where
  "conc k al = map (\<lambda>p. (fst p, Num (scaled k (snd p)))) al"

definition held :: "(string \<times> nat) list \<Rightarrow> string \<Rightarrow> nat" where
  "held al c = (case map_of al c of None \<Rightarrow> 0 | Some m \<Rightarrow> m)"

section \<open>Evaluation\<close>

lemmas number_eval =
  bits.simps norm.simps mk_def rte_def round_frac_def Let_def

lemma parseFloat_12_50: "parseFloat ''12.50'' = Fin 25 (- 1)"
  by (simp add: parseFloat_def trimStart_def isWhiteSpace_def strUnsignedDecimalLiteral_def
      isDigit_def decimalDigits_def digitVal_def exponentPart_def decimal_def number_eval)

lemma parseFloat_0_1: "parseFloat ''0.1'' = Fin 3602879701896397 (- 55)"
  by (simp add: parseFloat_def trimStart_def isWhiteSpace_def strUnsignedDecimalLiteral_def
      isDigit_def decimalDigits_def digitVal_def exponentPart_def decimal_def number_eval)

lemma parseFloat_abc: "parseFloat ''abc'' = NaN"
  by (simp add: parseFloat_def trimStart_def isWhiteSpace_def strUnsignedDecimalLiteral_def
      isDigit_def)

lemma parseFloat_1e16: "parseFloat '' 1e16 USD'' = Fin 152587890625 16"
  by (simp add: parseFloat_def trimStart_def isWhiteSpace_def strUnsignedDecimalLiteral_def
      isDigit_def decimalDigits_def digitVal_def exponentPart_def decimal_def number_eval)

lemma jsadd_1e16_1: "jsadd (Fin 152587890625 16) (Fin 1 0) = Fin 152587890625 16"
  by (simp add: number_eval)

lemma jsadd_12_7: "jsadd (Fin 25 (- 1)) (Fin 29 (- 2)) = Fin 79 (- 2)"
  by (simp add: number_eval)

lemmas date_eval =
  msPerDay_def Day_def TimeWithinDay_def civil_from_days_def civil_of_doe_def civil_of_yoe_def
  civil_of_mp_def civil_of_m_def days_from_civil_def isoYMD_def isoDateOnly_def
  YearFromTime_def MonthFromTime_def DateFromTime_def WeekDay_def MakeDay_def MakeTime_def
  MakeDate_def LocalTime_def UTC_def getFullYear_def getMonth_def getDate_def getDay_def
  setDate_def setHours_def daysInMonth_def isoDate_def Date_parse_def decimalDigits_def
  digitVal_def isDigit_def startOfWeek_def endOfWeek_def

lemma Date_parse_2024_03_15: "Date_parse legacy ''2024-03-15'' = Some 1710460800000"
  by (simp add: date_eval)


lemma getTodayString_ex: "getTodayString (- 300) 1710522000000 = ''2024-03-15''"
  by (simp add: getTodayString_def date_eval showInt_def showNat.simps padStart2_def
      digitChar_def)

lemmas totals_eval =
  totalSpending_def categoryTotals_def addToCategory_def initCategory_def getProp_def
  setProp_def cat_def amt_def objectPrototypeFunctions_def Object_entries_def
  isArrayIndex_def isDigit_def decimalDigits_def digitVal_def sumOfSubtotals_def

section \<open>Validation\<close>

lemma trim_empty_trimStart: "trim s = [] \<Longrightarrow> trimStart s = []"
proof -
  assume a: "trim s = []"
  have "\<forall>c \<in> set (rev (trimStart s)). isWhiteSpace c"
    using a by (simp add: trim_def trimEnd_def)
  then have all: "\<forall>c \<in> set (trimStart s). isWhiteSpace c" by simp
  show ?thesis
  proof (cases "trimStart s")
    case Nil then show ?thesis .
  next
    case (Cons c t)
    then have "\<not> isWhiteSpace c"
      unfolding trimStart_def using hd_dropWhile [of isWhiteSpace s] by auto
    with all Cons show ?thesis by simp
  qed
qed

lemma parseFloat_blank: "trim s = [] \<Longrightarrow> parseFloat s = NaN"
  by (simp add: parseFloat_def trim_empty_trimStart)

lemma trim_Food: "trim '' Food '' = ''Food''"
  by (simp add: trim_def trimEnd_def trimStart_def isWhiteSpace_def)

lemma trim_blank: "trim '' '' = []"
  by (simp add: trim_def trimEnd_def trimStart_def isWhiteSpace_def)

lemma saveStmt_fields:
  "stmt_amount (saveStmt tz now s a) = Some a
   \<and> stmt_category (saveStmt tz now s a) = Some (trim (category s))"
  by (simp add: saveStmt_def Let_def split: option.split)

text \<open>
  \<open>ExpenseScreen.js\<close> makes no save attempt: its form cells keep their initial empty
  values and nothing calls its \<open>handleSaveExpense\<close>. Called all the same, that handler
  would return without a signal.
\<close>

lemma reachable_ES_form_empty:
  "reachable_ES s d \<Longrightarrow>
     amount s = [] \<and> category s = [] \<and> noteS s = [] \<and> editingId s = None"
proof (induction rule: reachable_ES.induct)
  case (e_start d)
  then show ?case by (simp add: initialState_def)
next
  case (e_load s d)
  then show ?case by (simp add: loadExpenses_def)
next
  case (e_filter s d f)
  then show ?case by simp
next
  case (e_delete s d i)
  then show ?case by (simp add: deleteExpense_ES_def loadExpenses_def)
qed

lemma handleSaveExpense_ES_no_signal:
  assumes "validation_fails (amount s) (category s)"
  shows "signals (handleSaveExpense_ES tz now s d) = []"
  using assms by (auto simp add: validation_fails_def handleSaveExpense_ES_def Let_def)

text \<open>
  C1. Every save attempt whose input fails validation produces a signal to the caller
  that names the reason; none ends silently. Save attempts are made on the screen of
  the second file. Its handler raises exactly one alert on every validation failure:
  \<open>Missing amount\<close> for a blank amount text, which does not parse, \<open>Missing category\<close>
  for a category that trims to empty, and \<open>Invalid amount\<close> for an amount text that
  does not parse or parses to a number not greater than 0.
\<close>

theorem validation_failure_signalled:
  assumes "validation_fails (amount s) (category s)"
  shows "(signals (handleSaveExpense_P0 tz now s d)
            = [Alert ''Missing amount'' ''Please enter an amount before saving.'']
          \<and> trim (amount s) = [] \<and> isNaN (parseFloat (amount s)))
       \<or> (signals (handleSaveExpense_P0 tz now s d)
            = [Alert ''Missing category'' ''Please enter a category before saving.'']
          \<and> trim (category s) = [])
       \<or> (signals (handleSaveExpense_P0 tz now s d)
            = [Alert ''Invalid amount'' ''Amount must be a number greater than 0.'']
          \<and> (isNaN (parseFloat (amount s)) \<or> le_zero (parseFloat (amount s))))"
proof (cases "trim (amount s) = []")
  case True
  then show ?thesis
    using parseFloat_blank [of "amount s"] by (simp add: handleSaveExpense_P0_def)
next
  case False
  then show ?thesis
    using assms
    by (auto simp add: validation_fails_def handleSaveExpense_P0_def Let_def)
qed

theorem validation_failure_signalled_witness:
  "validation_fails (amount form0) (category form0)
   \<and> signals (handleSaveExpense_P0 0 1710522000000 form0 db0)
       = [Alert ''Invalid amount'' ''Amount must be a number greater than 0.'']
   \<and> validation_fails (amount (form1\<lparr>category := '' ''\<rparr>)) (category (form1\<lparr>category := '' ''\<rparr>))
   \<and> signals (handleSaveExpense_P0 0 1710522000000 (form1\<lparr>category := '' ''\<rparr>) db0)
       = [Alert ''Missing category'' ''Please enter a category before saving.'']
   \<and> validation_fails (amount (form1\<lparr>amount := '' ''\<rparr>)) (category (form1\<lparr>amount := '' ''\<rparr>))
   \<and> signals (handleSaveExpense_P0 0 1710522000000 (form1\<lparr>amount := '' ''\<rparr>) db0)
       = [Alert ''Missing amount'' ''Please enter an amount before saving.'']"
proof -
  have f0: "validation_fails (amount form0) (category form0)"
    by (simp add: validation_fails_def form0_def parseFloat_abc)
  have f1: "validation_fails (amount (form1\<lparr>category := '' ''\<rparr>))
              (category (form1\<lparr>category := '' ''\<rparr>))"
    by (simp add: validation_fails_def form1_def trim_blank)
  have f2: "validation_fails (amount (form1\<lparr>amount := '' ''\<rparr>))
              (category (form1\<lparr>amount := '' ''\<rparr>))"
    by (simp add: validation_fails_def form1_def parseFloat_blank trim_blank)
  have t0: "trim ''abc'' = ''abc''" "trim ''12.50'' = ''12.50''" "trim ''Food'' = ''Food''"
    by (simp_all add: trim_def trimEnd_def trimStart_def isWhiteSpace_def)
  have s0: "signals (handleSaveExpense_P0 0 1710522000000 form0 db0)
       = [Alert ''Invalid amount'' ''Amount must be a number greater than 0.'']"
    using validation_failure_signalled [OF f0, of 0 1710522000000 db0]
    by (simp add: form0_def t0)
  have s1: "signals (handleSaveExpense_P0 0 1710522000000 (form1\<lparr>category := '' ''\<rparr>) db0)
       = [Alert ''Missing category'' ''Please enter a category before saving.'']"
    using validation_failure_signalled [OF f1, of 0 1710522000000 db0]
    by (simp add: form1_def t0 parseFloat_12_50 trim_blank)
  have s2: "signals (handleSaveExpense_P0 0 1710522000000 (form1\<lparr>amount := '' ''\<rparr>) db0)
       = [Alert ''Missing amount'' ''Please enter an amount before saving.'']"
    using validation_failure_signalled [OF f2, of 0 1710522000000 db0]
    by (simp add: handleSaveExpense_P0_def form1_def trim_blank)
  show ?thesis using f0 f1 f2 s0 s1 s2 by simp
qed

text \<open>
  C8. A save attempt that fails validation sends no statement to the table, in
  either file, and the table is the one before the attempt.
\<close>

theorem validation_failure_no_store_call:
  assumes "validation_fails (amount s) (category s)"
  shows "issued (handleSaveExpense_ES tz now s d) = []
       \<and> store (handleSaveExpense_ES tz now s d) = d
       \<and> issued (handleSaveExpense_P0 tz now s d) = []
       \<and> store (handleSaveExpense_P0 tz now s d) = d"
  using assms
  by (auto simp add: validation_fails_def handleSaveExpense_P0_def handleSaveExpense_ES_def
      Let_def)

theorem validation_failure_no_store_call_witness:
  "validation_fails (amount form0) (category form0)
   \<and> issued (handleSaveExpense_ES 0 1710522000000 form0 db0) = []
   \<and> store (handleSaveExpense_ES 0 1710522000000 form0 db0) = db0
   \<and> issued (handleSaveExpense_P0 0 1710522000000 form0 db0) = []
   \<and> store (handleSaveExpense_P0 0 1710522000000 form0 db0) = db0"
proof -
  have f: "validation_fails (amount form0) (category form0)"
    by (simp add: validation_fails_def form0_def parseFloat_abc)
  show ?thesis
    using f validation_failure_no_store_call [OF f, of 0 1710522000000 db0] by simp
qed

text \<open>
  C7. When the amount text parses to a number greater than 0 and the category is not
  blank, validation succeeds in both files: the one statement sent to the table
  carries the parsed amount and the trimmed category.
\<close>

theorem valid_input_accepted:
  assumes "\<not> isNaN (parseFloat (amount s))" and "\<not> le_zero (parseFloat (amount s))"
    and "trim (category s) \<noteq> []"
  shows "issued (handleSaveExpense_ES tz now s d) = [saveStmt tz now s (parseFloat (amount s))]
       \<and> issued (handleSaveExpense_P0 tz now s d) = [saveStmt tz now s (parseFloat (amount s))]
       \<and> stmt_amount (saveStmt tz now s (parseFloat (amount s))) = Some (parseFloat (amount s))
       \<and> stmt_category (saveStmt tz now s (parseFloat (amount s))) = Some (trim (category s))"
proof -
  have ne: "trim (amount s) \<noteq> []"
    using assms(1) parseFloat_blank [of "amount s"] by auto
  show ?thesis
    using assms ne
    by (auto simp add: handleSaveExpense_P0_def handleSaveExpense_ES_def Let_def
        saveStmt_fields split: sum.split)
qed

theorem valid_input_accepted_witness:
  "\<not> isNaN (parseFloat (amount form1)) \<and> \<not> le_zero (parseFloat (amount form1))
   \<and> trim (category form1) \<noteq> []
   \<and> issued (handleSaveExpense_ES 0 1710522000000 form1 db0)
       = [Insert (Fin 25 (- 1)) ''Food'' None ''2024-03-15'']
   \<and> issued (handleSaveExpense_P0 0 1710522000000 form1 db0)
       = [Insert (Fin 25 (- 1)) ''Food'' None ''2024-03-15'']"
proof -
  have a: "\<not> isNaN (parseFloat (amount form1))" "\<not> le_zero (parseFloat (amount form1))"
    by (simp_all add: form1_def parseFloat_12_50)
  have c: "trim (category form1) \<noteq> []"
    by (simp add: form1_def trim_Food)
  have today: "getTodayString 0 1710522000000 = ''2024-03-15''"
    by (simp add: getTodayString_def date_eval showInt_def showNat.simps padStart2_def
        digitChar_def)
  have st: "saveStmt 0 1710522000000 form1 (parseFloat (amount form1))
              = Insert (Fin 25 (- 1)) ''Food'' None ''2024-03-15''"
    by (simp add: saveStmt_def dateToUse_def form1_def parseFloat_12_50 trim_Food trim_blank
        today)
  show ?thesis
    using a c valid_input_accepted [OF a c, of 0 1710522000000 db0] by (simp add: st)
qed

section \<open>Deleting while editing\<close>

text \<open>
  \<open>ExpenseScreen.js\<close> never leaves the state Idle: nothing calls its
  \<open>startEditExpense\<close>, and its two handlers keep \<open>editingId\<close> at \<open>null\<close>.
\<close>

lemma ES_stays_idle:
  "editingId s = None \<Longrightarrow>
     editingId (ui (handleSaveExpense_ES tz now s d)) = None
     \<and> editingId (ui (deleteExpense_ES i s d)) = None"
  by (simp add: handleSaveExpense_ES_def deleteExpense_ES_def loadExpenses_def resetForm_def
      Let_def split: sum.split)

text \<open>
  C4. \<open>delete(id)\<close> moves the edit state to Idle and discards the form values when
  \<open>id\<close> is the edited id, and leaves the edit state and the form as they are when it
  is another id or the state is Idle. This holds of \<open>deleteExpense\<close> of the second
  file in every state, and of \<open>deleteExpense\<close> of \<open>ExpenseScreen.js\<close> in the state Idle,
  the only one that file reaches.
\<close>

theorem deleteExpense_edit_state:
  "editingId (ui (deleteExpense_P0 i s d)) = (if editingId s = Some i then None else editingId s)
   \<and> amount (ui (deleteExpense_P0 i s d)) = (if editingId s = Some i then [] else amount s)
   \<and> category (ui (deleteExpense_P0 i s d)) = (if editingId s = Some i then [] else category s)
   \<and> noteS (ui (deleteExpense_P0 i s d)) = (if editingId s = Some i then [] else noteS s)
   \<and> (editingId s = None \<longrightarrow>
        editingId (ui (deleteExpense_ES i s d)) = None
        \<and> amount (ui (deleteExpense_ES i s d)) = amount s
        \<and> category (ui (deleteExpense_ES i s d)) = category s
        \<and> noteS (ui (deleteExpense_ES i s d)) = noteS s)"
  by (simp add: deleteExpense_P0_def deleteExpense_ES_def loadExpenses_def resetForm_def Let_def)

theorem deleteExpense_edit_state_witness:
  "editingId (ui (deleteExpense_P0 7 (form1\<lparr>editingId := Some 7\<rparr>) db0)) = None
   \<and> amount (ui (deleteExpense_P0 7 (form1\<lparr>editingId := Some 7\<rparr>) db0)) = []
   \<and> editingId (ui (deleteExpense_P0 8 (form1\<lparr>editingId := Some 7\<rparr>) db0)) = Some 7
   \<and> amount (ui (deleteExpense_P0 8 (form1\<lparr>editingId := Some 7\<rparr>) db0)) = ''12.50''
   \<and> editingId form1 = None
   \<and> editingId (ui (deleteExpense_ES 7 form1 db0)) = None
   \<and> amount (ui (deleteExpense_ES 7 form1 db0)) = ''12.50''"
  using deleteExpense_edit_state [of 7 "form1\<lparr>editingId := Some 7\<rparr>" db0]
    deleteExpense_edit_state [of 8 "form1\<lparr>editingId := Some 7\<rparr>" db0]
    deleteExpense_edit_state [of 7 form1 db0]
  by (simp add: form1_def)

section \<open>The filter\<close>

lemmas filter_eval = getFilteredExpenses_def inMonth_def inWeek_def dated_def

lemma parse_0310: "Date_parse legacy ''2024-03-10'' = Some (19792 * msPerDay)"
  by (simp add: date_eval)
lemma parse_0309: "Date_parse legacy ''2024-03-09'' = Some (19791 * msPerDay)"
  by (simp add: date_eval)
lemma parse_0229: "Date_parse legacy ''2024-02-29'' = Some (19782 * msPerDay)"
  by (simp add: date_eval)

lemma Day_plus: "0 \<le> r \<Longrightarrow> r < msPerDay \<Longrightarrow> Day (k * msPerDay + r) = k"
  by (simp add: Day_def msPerDay_def)

lemma TimeWithinDay_bounds: "0 \<le> TimeWithinDay t \<and> TimeWithinDay t < msPerDay"
  by (simp add: TimeWithinDay_def msPerDay_def)

lemma civil_19797: "civil_from_days 19797 = (2024, 3, 15)"
  by (simp add: date_eval)
lemma civil_19792: "civil_from_days 19792 = (2024, 3, 10)"
  by (simp add: date_eval)
lemma civil_19791: "civil_from_days 19791 = (2024, 3, 9)"
  by (simp add: date_eval)
lemma civil_19782: "civil_from_days 19782 = (2024, 2, 29)"
  by (simp add: date_eval)

lemma week_bounds_east:
  assumes day: "Day (LocalTime tz today) = 19797"
  shows "startOfWeek tz today = 19792 * msPerDay - tz * 60000"
    and "endOfWeek tz today = 19798 * msPerDay + 86399999 - tz * 60000"
proof -
  have sd: "setDate tz today (getDate tz today - getDay tz today)
              = 19792 * msPerDay + TimeWithinDay (LocalTime tz today) - tz * 60000"
    by (simp add: setDate_def getDate_def getDay_def DateFromTime_def WeekDay_def
        YearFromTime_def MonthFromTime_def day civil_19797 MakeDay_def days_from_civil_def
        MakeDate_def UTC_def)
  have lt: "LocalTime tz (19792 * msPerDay + TimeWithinDay (LocalTime tz today) - tz * 60000)
              = 19792 * msPerDay + TimeWithinDay (LocalTime tz today)"
    by (simp add: LocalTime_def)
  show s: "startOfWeek tz today = 19792 * msPerDay - tz * 60000"
    using TimeWithinDay_bounds [of "LocalTime tz today"]
    by (simp add: startOfWeek_def sd setHours_def lt Day_plus MakeTime_def MakeDate_def UTC_def)
  have d2: "Day (LocalTime tz (19792 * msPerDay - tz * 60000)) = 19792"
    by (simp add: LocalTime_def Day_def msPerDay_def)
  have t2: "TimeWithinDay (LocalTime tz (19792 * msPerDay - tz * 60000)) = 0"
    by (simp add: LocalTime_def TimeWithinDay_def)
  have sd2: "setDate tz (19792 * msPerDay - tz * 60000)
               (getDate tz (19792 * msPerDay - tz * 60000) + 6)
             = 19798 * msPerDay - tz * 60000"
    by (simp add: setDate_def getDate_def DateFromTime_def YearFromTime_def MonthFromTime_def
        d2 t2 civil_19792 MakeDay_def days_from_civil_def MakeDate_def UTC_def)
  have d3: "Day (LocalTime tz (19798 * msPerDay - tz * 60000)) = 19798"
    by (simp add: LocalTime_def Day_def msPerDay_def)
  show "endOfWeek tz today = 19798 * msPerDay + 86399999 - tz * 60000"
    by (simp add: endOfWeek_def s sd2 setHours_def d3 MakeTime_def MakeDate_def UTC_def)
qed

text \<open>
  East of Greenwich, and at Greenwich, the three records of the example are classified
  as the specification says, at any time of the local day 2024-03-15.
\<close>

lemma week_east_of_UTC:
  assumes tz: "0 \<le> tz" "tz < 1440" and day: "Day (LocalTime tz today) = 19797"
  shows "getFilteredExpenses legacy tz today ''WEEK''
           [dated 3 (Some ''2024-03-10''), dated 2 (Some ''2024-03-09''), dated 1 (Some ''2024-02-29'')]
         = [dated 3 (Some ''2024-03-10'')]"
  using tz
  by (simp add: getFilteredExpenses_def inWeek_def dated_def parse_0310 parse_0309 parse_0229
      week_bounds_east [OF day] msPerDay_def)

lemma month_east_of_UTC:
  assumes tz: "0 \<le> tz" "tz < 1440" and day: "Day (LocalTime tz today) = 19797"
  shows "getFilteredExpenses legacy tz today ''MONTH''
           [dated 3 (Some ''2024-03-10''), dated 2 (Some ''2024-03-09''), dated 1 (Some ''2024-02-29'')]
         = [dated 3 (Some ''2024-03-10''), dated 2 (Some ''2024-03-09'')]"
proof -
  have r: "0 \<le> tz * 60000" "tz * 60000 < msPerDay"
    using tz by (simp_all add: msPerDay_def)
  have d: "Day (LocalTime tz (19792 * msPerDay)) = 19792"
    "Day (LocalTime tz (19791 * msPerDay)) = 19791"
    "Day (LocalTime tz (19782 * msPerDay)) = 19782"
    unfolding LocalTime_def using r by (simp_all add: Day_plus)
  show ?thesis
    by (simp add: getFilteredExpenses_def inMonth_def dated_def parse_0310 parse_0309
        parse_0229 getFullYear_def getMonth_def YearFromTime_def MonthFromTime_def d day
        civil_19797 civil_19792 civil_19791 civil_19782)
qed

text \<open>West of Greenwich the week of 2024-03-15 holds none of the three records.\<close>

lemma week_west_of_UTC_any:
  assumes tz: "tz < 0" and day: "Day (LocalTime tz today) = 19797"
  shows "getFilteredExpenses legacy tz today ''WEEK''
           [dated 3 (Some ''2024-03-10''), dated 2 (Some ''2024-03-09''), dated 1 (Some ''2024-02-29'')]
         = []"
  using tz
  by (simp add: getFilteredExpenses_def inWeek_def dated_def parse_0310 parse_0309 parse_0229
      week_bounds_east [OF day] msPerDay_def)

text \<open>
  C2. With the reference date 2024-03-15 and the week from Sunday to Saturday, the
  record dated 2024-03-10 (the Sunday) is in WEEK. The program parses the stored date
  as midnight UTC and compares it with the local start of the week: in the zone
  UTC-05:00, at noon of 2024-03-15 local time (a Friday), the week classification
  holds none of the three records, the one of 2024-03-10 included; MONTH and ALL are
  as the specification says.
\<close>

theorem week_west_of_UTC:
  "getTodayString (- 300) 1710522000000 = ''2024-03-15''
   \<and> getDay (- 300) 1710522000000 = 5
   \<and> getFilteredExpenses legacy (- 300) 1710522000000 ''WEEK''
        [dated 3 (Some ''2024-03-10''), dated 2 (Some ''2024-03-09''), dated 1 (Some ''2024-02-29'')]
      = []
   \<and> getFilteredExpenses legacy (- 300) 1710522000000 ''MONTH''
        [dated 3 (Some ''2024-03-10''), dated 2 (Some ''2024-03-09''), dated 1 (Some ''2024-02-29'')]
      = [dated 3 (Some ''2024-03-10''), dated 2 (Some ''2024-03-09'')]
   \<and> getFilteredExpenses legacy (- 300) 1710522000000 ''ALL''
        [dated 3 (Some ''2024-03-10''), dated 2 (Some ''2024-03-09''), dated 1 (Some ''2024-02-29'')]
      = [dated 3 (Some ''2024-03-10''), dated 2 (Some ''2024-03-09''), dated 1 (Some ''2024-02-29'')]"
  by (simp add: filter_eval date_eval getTodayString_ex)

text \<open>
  C5, as stated: a record whose date is absent or malformed is in neither WEEK nor
  MONTH. The date \<open>2024-03\<close> is not of the form \<open>YYYY-MM-DD\<close>, yet \<open>new Date\<close> reads it
  as 2024-03-01, and the record is in MONTH on 2024-03-15.
\<close>

theorem malformed_date_in_month:
  "\<not> spec_date_format ''2024-03''
   \<and> getFilteredExpenses noLegacy 0 1710522000000 ''MONTH'' [dated 1 (Some ''2024-03'')]
       = [dated 1 (Some ''2024-03'')]"
  by (simp add: filter_eval date_eval spec_date_format_def)

text \<open>
  C5, amended: a record whose date is absent (\<open>null\<close>, \<open>undefined\<close> or the empty
  string) or is a string that \<open>new Date\<close> does not accept is in neither WEEK nor MONTH,
  and ALL keeps every record. The filter has no path that throws: it returns a list
  for every input.
\<close>

theorem unparseable_excluded:
  assumes "unparseable legacy (exp_date x)"
  shows "x \<notin> set (getFilteredExpenses legacy tz today ''WEEK'' xs)
       \<and> x \<notin> set (getFilteredExpenses legacy tz today ''MONTH'' xs)
       \<and> getFilteredExpenses legacy tz today ''ALL'' xs = xs"
  using assms
  by (auto simp add: getFilteredExpenses_def inMonth_def inWeek_def unparseable_def
      split: option.splits)

theorem unparseable_excluded_witness:
  "unparseable noLegacy (exp_date (dated 1 (Some ''15/03/2024'')))
   \<and> dated 1 (Some ''15/03/2024'')
       \<notin> set (getFilteredExpenses noLegacy 0 1710522000000 ''WEEK''
                [dated 1 (Some ''15/03/2024''), dated 2 None])
   \<and> dated 1 (Some ''15/03/2024'')
       \<notin> set (getFilteredExpenses noLegacy 0 1710522000000 ''MONTH''
                [dated 1 (Some ''15/03/2024''), dated 2 None])
   \<and> getFilteredExpenses noLegacy 0 1710522000000 ''ALL''
         [dated 1 (Some ''15/03/2024''), dated 2 None]
       = [dated 1 (Some ''15/03/2024''), dated 2 None]"
proof -
  have u: "unparseable noLegacy (exp_date (dated 1 (Some ''15/03/2024'')))"
    by (simp add: unparseable_def dated_def Date_parse_def isoDateOnly_def noLegacy_def)
  show ?thesis
    using u unparseable_excluded [OF u, of 0 1710522000000
        "[dated 1 (Some ''15/03/2024''), dated 2 None]"]
    by simp
qed

section \<open>Editing keeps the date\<close>

lemma set_getAllAsync: "set (getAllAsync d) = set (rows d)"
  by (simp add: getAllAsync_def)

lemma getTodayString_nonempty: "getTodayString tz now \<noteq> []"
  by (simp add: getTodayString_def showInt_def showNat.simps [of "nat (getFullYear tz now)"]
      showNat.simps [of "nat (- getFullYear tz now)"])

lemma dateToUse_nonempty: "dateToUse tz now s \<noteq> []"
  by (simp add: dateToUse_def getTodayString_nonempty split: option.split)

lemma dateToUse_editing:
  assumes wf: "wf_db d" and sy: "expenses s = getAllAsync d" and ed: "editingId s = Some i"
    and r: "r \<in> set (rows d)" "exp_id r = i"
  shows "Some (dateToUse tz now s) = exp_date r"
proof -
  have ex: "\<exists>e \<in> set (expenses s). Some (exp_id e) = editingId s"
    using r ed sy by (auto simp add: set_getAllAsync)
  then obtain e where f: "find (\<lambda>e. Some (exp_id e) = editingId s) (expenses s) = Some e"
    by (cases "find (\<lambda>e. Some (exp_id e) = editingId s) (expenses s)")
       (auto simp add: find_None_iff)
  then have e: "e \<in> set (rows d)" "exp_id e = i"
    using sy ed by (auto simp add: find_Some_iff set_getAllAsync [symmetric])
  have "inj_on exp_id (set (rows d))"
    using wf by (simp add: wf_db_def distinct_map)
  then have "e = r" using e r by (auto dest: inj_onD)
  moreover have "dateTruthy (exp_date r)"
    using wf r by (simp add: wf_db_def list_all_iff)
  ultimately show ?thesis
    using f by (auto simp add: dateToUse_def dateTruthy_def split: option.splits)
qed

lemma update_idDates:
  assumes wf: "wf_db d" and sy: "expenses s = getAllAsync d" and ed: "editingId s = Some i"
    and run: "runAsync (saveStmt tz now s a) d = Inr d'"
  shows "idDates d' = idDates d"
proof -
  have "\<forall>r \<in> set (rows d). exp_id r = i \<longrightarrow> Some (dateToUse tz now s) = exp_date r"
    using dateToUse_editing [OF wf sy ed] by blast
  then have "map (\<lambda>r. (exp_id r, exp_date r))
               (map (\<lambda>r. if exp_id r = i
                          then r\<lparr>exp_amount := a, exp_category := trim (category s),
                                 exp_note := (if trim (noteS s) = [] then None else Some (trim (noteS s))),
                                 exp_date := Some (dateToUse tz now s)\<rparr>
                          else r) (rows d))
             = map (\<lambda>r. (exp_id r, exp_date r)) (rows d)"
    by (induction "rows d") auto
  then show ?thesis
    using run ed by (auto simp add: idDates_def saveStmt_def Let_def split: if_splits)
qed

text \<open>
  C3. A save in the state Editing(i) leaves the stored date of every row as it was,
  in both files, whether the save is refused, fails or updates the row. The table is
  one the program has written and the list is the one last loaded from it, as in
  every state the screen reaches while editing (\<open>reachable_editing_synced\<close> below).
\<close>

theorem edit_preserves_date:
  assumes wf: "wf_db d" and sy: "expenses s = getAllAsync d" and ed: "editingId s = Some i"
  shows "idDates (store (handleSaveExpense_P0 tz now s d)) = idDates d
       \<and> idDates (store (handleSaveExpense_ES tz now s d)) = idDates d"
  using update_idDates [OF wf sy ed]
  by (auto simp add: handleSaveExpense_P0_def handleSaveExpense_ES_def Let_def split: sum.split)

theorem edit_preserves_date_witness:
  "wf_db db1 \<and> expenses form2 = getAllAsync db1 \<and> editingId form2 = Some 1
   \<and> idDates db1 = [(1, Some ''2024-03-01'')]
   \<and> idDates (store (handleSaveExpense_P0 0 1710522000000 form2 db1))
       = [(1, Some ''2024-03-01'')]
   \<and> idDates (store (handleSaveExpense_ES 0 1710522000000 form2 db1))
       = [(1, Some ''2024-03-01'')]
   \<and> issued (handleSaveExpense_P0 0 1710522000000 form2 db1)
       = [Update (Fin 5 2) ''Groceries'' None ''2024-03-01'' 1]"
proof -
  have wf: "wf_db db1"
    by (simp add: wf_db_def db1_def dated_def dateTruthy_def)
  have sy: "expenses form2 = getAllAsync db1"
    by (simp add: form2_def db1_def getAllAsync_def)
  have ed: "editingId form2 = Some 1"
    by (simp add: form2_def)
  have ids: "idDates db1 = [(1, Some ''2024-03-01'')]"
    by (simp add: idDates_def db1_def dated_def)
  have pf: "parseFloat ''20'' = Fin 5 2"
    by (simp add: parseFloat_def trimStart_def isWhiteSpace_def strUnsignedDecimalLiteral_def
        isDigit_def decimalDigits_def digitVal_def exponentPart_def decimal_def number_eval)
  have tr: "trim ''Groceries'' = ''Groceries''"
    by (simp add: trim_def trimEnd_def trimStart_def isWhiteSpace_def)
  have st: "saveStmt 0 1710522000000 form2 (Fin 5 2)
              = Update (Fin 5 2) ''Groceries'' None ''2024-03-01'' 1"
    by (simp add: saveStmt_def dateToUse_def form2_def dated_def trim_def trimEnd_def
        trimStart_def isWhiteSpace_def)
  have tr2: "trim ''20'' = ''20''"
    by (simp add: trim_def trimEnd_def trimStart_def isWhiteSpace_def)
  have iss: "issued (handleSaveExpense_P0 0 1710522000000 form2 db1)
               = [Update (Fin 5 2) ''Groceries'' None ''2024-03-01'' 1]"
    using st by (simp add: handleSaveExpense_P0_def form2_def pf tr tr2 db1_def Let_def)
  show ?thesis
    using wf sy ed ids iss edit_preserves_date [OF wf sy ed, of 0 1710522000000] by simp
qed

lemma fold_max_ge: "(a::int) \<le> fold max xs a \<and> (\<forall>x \<in> set xs. x \<le> fold max xs a)"
proof (induction xs arbitrary: a)
  case Nil
  then show ?case by simp
next
  case (Cons y ys)
  have "max y a \<le> fold max ys (max y a)" using Cons by blast
  with Cons [of "max y a"] show ?case by auto
qed

lemma nextId_fresh: "nextId d \<notin> set (map exp_id (rows d))"
proof
  assume "nextId d \<in> set (map exp_id (rows d))"
  then have "nextId d \<le> fold max (map exp_id (rows d)) (seq d)"
    using fold_max_ge [of "seq d" "map exp_id (rows d)"] by blast
  then show False by (simp add: nextId_def)
qed

lemma insert_wf:
  assumes "wf_db d" and "dt \<noteq> []" and "runAsync (Insert a c n dt) d = Inr d'"
  shows "wf_db d'"
  using assms nextId_fresh [of d]
  by (auto simp add: wf_db_def dateTruthy_def split: if_splits)

lemma update_ids:
  "exp_id \<circ> (\<lambda>r. if exp_id r = i
                    then r\<lparr>exp_amount := a, exp_category := c, exp_note := n, exp_date := dt\<rparr>
                    else r) = exp_id"
  by (auto simp add: fun_eq_iff)

lemma update_wf:
  assumes "wf_db d" and "dt \<noteq> []" and "runAsync (Update a c n dt i) d = Inr d'"
  shows "wf_db d'"
  using assms
  by (auto simp add: wf_db_def dateTruthy_def update_ids list_all_iff split: if_splits)

lemma saveStmt_wf:
  assumes wf: "wf_db d" and run: "runAsync (saveStmt tz now s a) d = Inr d'"
  shows "wf_db d'"
  using run insert_wf [OF wf dateToUse_nonempty] update_wf [OF wf dateToUse_nonempty]
  by (auto simp add: saveStmt_def Let_def split: option.splits)

lemma delete_wf: "wf_db d \<Longrightarrow> runAsync (Delete i) d = Inr d' \<Longrightarrow> wf_db d'"
  by (auto simp add: wf_db_def list_all_iff distinct_map_filter)

lemma reachable_invariant: "reachable toStr s d \<Longrightarrow> wf_db d \<and> synced s d"
proof (induction rule: reachable.induct)
  case (r_start d)
  then show ?case by (simp add: synced_def initialState_def)
next
  case (r_load s d)
  then show ?case by (simp add: synced_def loadExpenses_def)
next
  case (r_typed s d a c n f)
  then show ?case by (simp add: synced_def)
next
  case (r_save s d tz now)
  then show ?case
    using saveStmt_wf [of d tz now s "parseFloat (amount s)"]
    by (auto simp add: handleSaveExpense_P0_def Let_def synced_def loadExpenses_def
        split: sum.split)
next
  case (r_delete s d i)
  then show ?case
    using delete_wf [of d i]
    by (auto simp add: deleteExpense_P0_def Let_def synced_def loadExpenses_def resetForm_def
        split: sum.split)
next
  case (r_edit s d e)
  then show ?case by (auto simp add: synced_def startEditExpense_def)
next
  case (r_cancel s d)
  then show ?case by (auto simp add: synced_def resetForm_def)
qed

lemma reachable_editing_synced:
  "reachable toStr s d \<Longrightarrow> editingId s = Some i \<Longrightarrow> wf_db d \<and> expenses s = getAllAsync d"
  using reachable_invariant [of toStr s d] by (auto simp add: synced_def)

section \<open>Exact additions\<close>

lemma bits_le: "m < 2 ^ n \<Longrightarrow> bits m \<le> n"
proof (induction n arbitrary: m)
  case 0
  then show ?case by (simp add: bits.simps)
next
  case (Suc n)
  show ?case
  proof (cases "m = 0")
    case True
    then show ?thesis by (simp add: bits.simps)
  next
    case False
    have "m div 2 < 2 ^ n" using Suc.prems by auto
    then have "bits (m div 2) \<le> n" by (rule Suc.IH)
    then show ?thesis using False by (subst bits.simps) simp
  qed
qed

lemma norm_shift: "norm (m * 2 ^ j) e = norm m (e + int j)"
proof (induction j arbitrary: e)
  case 0
  then show ?case by simp
next
  case (Suc j)
  show ?case
  proof (cases "m = 0")
    case True
    then show ?thesis by (simp add: norm.simps)
  next
    case False
    have "norm (m * 2 ^ Suc j) e = norm (m * 2 ^ j) (e + 1)"
      using False by (subst norm.simps) simp
    also have "\<dots> = norm m (e + 1 + int j)" by (rule Suc.IH)
    finally show ?thesis by (simp add: add.commute add.left_commute)
  qed
qed

lemma mk_shift: "mk neg (m * 2 ^ j) e = mk neg m (e + int j)"
  by (simp add: mk_def norm_shift)

lemma norm_spec:
  "m \<noteq> 0 \<Longrightarrow> norm m e = (m', e') \<Longrightarrow> e \<le> e' \<and> m = m' * 2 ^ nat (e' - e) \<and> m' \<noteq> 0"
proof (induction m e rule: norm.induct)
  case (1 m e)
  show ?case
  proof (cases "even m")
    case True
    then have n: "norm (m div 2) (e + 1) = (m', e')"
      using "1.prems" by (subst (asm) norm.simps) simp
    have nz: "m div 2 \<noteq> 0" using True "1.prems"(1) by auto
    have ih: "e + 1 \<le> e' \<and> m div 2 = m' * 2 ^ nat (e' - (e + 1)) \<and> m' \<noteq> 0"
      using "1.IH" [OF "1.prems"(1) True nz n] .
    have "nat (e' - e) = Suc (nat (e' - (e + 1)))" using ih by linarith
    then have "m' * 2 ^ nat (e' - e) = 2 * (m div 2)" using ih by simp
    moreover have "2 * (m div 2) = m" using True by simp
    ultimately show ?thesis using ih by simp
  next
    case False
    then show ?thesis using "1.prems" by (subst (asm) norm.simps) auto
  qed
qed

lemma norm_zero: "norm 0 e = (0, 0)"
  by (simp add: norm.simps)

text \<open>A magnitude below \<open>2 ^ 53\<close> at a scale \<open>2 ^ - k\<close> is a finite number.\<close>

lemma scaled_Fin:
  assumes "n < 2 ^ 53"
  shows "\<exists>m' e'. scaled k n = Fin (int m') e' \<and> - int k \<le> e' \<and> n = m' * 2 ^ nat (e' + int k)
           \<and> (n = 0 \<longrightarrow> e' = 0) \<and> m' < 2 ^ 53"
proof (cases "n = 0")
  case True
  then show ?thesis by (simp add: scaled_def mk_def norm_zero bits.simps)
next
  case False
  obtain m' e' where n: "norm n (- int k) = (m', e')" by (cases "norm n (- int k)")
  from norm_spec [OF False n]
  have sp: "- int k \<le> e'" "n = m' * 2 ^ nat (e' + int k)" "m' \<noteq> 0" by simp_all
  have le: "m' \<le> n" using sp(2) by (metis One_nat_def Suc_leI mult.right_neutral
    mult_le_mono2 pos2 zero_less_power)
  then have m53: "m' < 2 ^ 53" using assms by simp
  then have b: "bits m' \<le> 53" by (rule bits_le)
  have "(2::nat) ^ nat (e' + int k) \<le> n"
    using sp(2) sp(3) by (metis One_nat_def Suc_leI mult.commute mult.right_neutral
      mult_le_mono2 neq0_conv)
  then have "(2::nat) ^ nat (e' + int k) < 2 ^ 53" using assms by simp
  then have "nat (e' + int k) < 53"
    using power_strict_increasing_iff [of "2::nat" "nat (e' + int k)" 53] by simp
  then have "e' < 53" by linarith
  then show ?thesis
    using n b sp m53 False by (auto simp add: scaled_def mk_def)
qed

lemma jsadd_scaled:
  assumes "a + b < 2 ^ 53"
  shows "jsadd (scaled k a) (scaled k b) = scaled k (a + b)"
proof -
  have a53: "a < 2 ^ 53" and b53: "b < 2 ^ 53" using assms by simp_all
  obtain a' ea where A: "scaled k a = Fin (int a') ea" "- int k \<le> ea"
      "a = a' * 2 ^ nat (ea + int k)"
    using scaled_Fin [OF a53, of k] by blast
  obtain b' eb where B: "scaled k b = Fin (int b') eb" "- int k \<le> eb"
      "b = b' * 2 ^ nat (eb + int k)"
    using scaled_Fin [OF b53, of k] by blast
  define e0 where "e0 = min ea eb"
  define Mn where "Mn = a' * 2 ^ nat (ea - e0) + b' * 2 ^ nat (eb - e0)"
  have e0: "- int k \<le> e0" "e0 \<le> ea" "e0 \<le> eb" using A(2) B(2) by (simp_all add: e0_def)
  have sa: "nat (ea + int k) = nat (ea - e0) + nat (e0 + int k)" using e0 by linarith
  have sb: "nat (eb + int k) = nat (eb - e0) + nat (e0 + int k)" using e0 by linarith
  have sum: "a + b = Mn * 2 ^ nat (e0 + int k)"
    by (subst A(3), subst B(3)) (simp add: Mn_def sa sb power_add algebra_simps)
  have "Mn \<le> a + b" unfolding sum by simp
  then have "Mn < 2 ^ 53" using assms by (rule le_less_trans)
  then have bits: "bits Mn \<le> 53" by (rule bits_le)
  have M: "int a' * 2 ^ nat (ea - e0) + int b' * 2 ^ nat (eb - e0) = int Mn"
    by (simp add: Mn_def)
  have "jsadd (scaled k a) (scaled k b) = mk False Mn e0"
    unfolding A(1) B(1) using bits by (simp add: Let_def e0_def [symmetric] M)
  also have "\<dots> = mk False (Mn * 2 ^ nat (e0 + int k)) (- int k)"
    using e0 by (simp add: mk_shift)
  finally show ?thesis by (simp add: scaled_def sum)
qed

lemma scaled_0: "scaled k 0 = Fin 0 0"
  by (simp add: scaled_def mk_def norm_zero bits.simps)

lemma falsy_scaled: "n < 2 ^ 53 \<Longrightarrow> falsy (scaled k n) = (n = 0)"
  using scaled_Fin [of n k] by auto

lemma scaled_example: "scaled 2 50 = Fin 25 (- 1) \<and> scaled 2 29 = Fin 29 (- 2) \<and> scaled 2 80 = Fin 5 2"
  by (simp add: scaled_def number_eval)

section \<open>Totals\<close>

lemmas parse_eval = parseFloat_def trimStart_def isWhiteSpace_def strUnsignedDecimalLiteral_def
  isDigit_def decimalDigits_def digitVal_def exponentPart_def decimal_def number_eval

lemma parseFloat_examples:
  "parseFloat ''7.25'' = Fin 29 (- 2)" "parseFloat ''20.00'' = Fin 5 2"
  "parseFloat ''5'' = Fin 5 0" "parseFloat ''800'' = Fin 25 5" "parseFloat ''25'' = Fin 25 0"
  "parseFloat ''0.2'' = Fin 3602879701896397 (- 54)"
  "parseFloat ''0.3'' = Fin 5404319552844595 (- 54)"
  by (simp_all add: parse_eval)

lemmas spent_eval = spent_def parseFloat_examples parseFloat_12_50 parseFloat_0_1

lemma aggregate_example:
  "totalSpending [spent 3 ''12.50'' ''Food'', spent 2 ''7.25'' ''Food'', spent 1 ''20.00'' ''Transport'']
     = Fin 159 (- 2)"
  "categoryTotals [spent 3 ''12.50'' ''Food'', spent 2 ''7.25'' ''Food'', spent 1 ''20.00'' ''Transport'']
     = [(''Food'', Num (Fin 79 (- 2))), (''Transport'', Num (Fin 5 2))]"
  "rat_of (Fin 159 (- 2)) = Some (3975 / 100)" "rat_of (Fin 79 (- 2)) = Some (1975 / 100)"
  "rat_of (Fin 5 2) = Some 20"
  by (simp_all add: totals_eval number_eval spent_eval)

lemma aggregate_empty: "totalSpending [] = Fin 0 0 \<and> categoryTotals [] = []"
  by (simp add: totalSpending_def categoryTotals_def)

lemma map_of_putOwn: "map_of (putOwn ob k v) = (map_of ob)(k \<mapsto> v)"
  by (induction ob) (auto simp add: fun_eq_iff)

lemma keys_putOwn:
  "map fst (putOwn ob k v) = (if k \<in> set (map fst ob) then map fst ob else map fst ob @ [k])"
  by (induction ob) auto

lemma key_in_putOwn: "k \<in> fst ` set (putOwn ob k v)"
  by (induction ob) auto

lemma putOwn_putOwn: "putOwn (putOwn ob k u) k v = putOwn ob k v"
  by (induction ob) auto

lemma keys_addToCategory:
  assumes "\<not> inherited (cat x)"
  shows "map fst (addToCategory ob x)
         = (if cat x \<in> set (map fst ob) then map fst ob else map fst ob @ [cat x])"
  using assms
  by (simp add: addToCategory_def initCategory_def setProp_def inherited_def keys_putOwn
      key_in_putOwn)

lemma firstAppearances_snoc:
  "firstAppearances (ys @ [y])
   = (if y \<in> set ys then firstAppearances ys else firstAppearances ys @ [y])"
  by (simp add: firstAppearances_def)

lemma set_firstAppearances: "set (firstAppearances ys) = set ys"
  by (simp add: firstAppearances_def)

lemma keys_categoryTotals:
  assumes "\<forall>x \<in> set xs. \<not> inherited (cat x)"
  shows "map fst (categoryTotals xs) = firstAppearances (map cat xs)"
  using assms
proof (induction xs rule: rev_induct)
  case Nil
  then show ?case by (simp add: categoryTotals_def firstAppearances_def)
next
  case (snoc x xs)
  then have ih: "map fst (categoryTotals xs) = firstAppearances (map cat xs)" by simp
  have "categoryTotals (xs @ [x]) = addToCategory (categoryTotals xs) x"
    by (simp add: categoryTotals_def)
  then show ?case
    using snoc.prems
    by (simp add: keys_addToCategory ih firstAppearances_snoc set_firstAppearances)
qed

lemma map_fst_insort_key:
  "map fst (insort_key (\<lambda>p. f (fst p)) p ps) = insort_key f (fst p) (map fst ps)"
  by (induction ps) auto

lemma map_fst_sort_key:
  "map fst (sort_key (\<lambda>p. f (fst p)) ps) = sort_key f (map fst ps)"
  by (induction ps) (auto simp add: map_fst_insort_key)

lemma keys_Object_entries:
  "map fst (Object_entries ob)
   = sort_key decimalDigits (filter isArrayIndex (map fst ob))
       @ filter (\<lambda>k. \<not> isArrayIndex k) (map fst ob)"
  by (simp add: Object_entries_def map_fst_sort_key filter_map comp_def)

lemma mk_False_canon: "canon (mk False m e)"
proof (cases "m = 0")
  case True
  then show ?thesis by (simp add: mk_def norm_zero canon_def bits.simps)
next
  case False
  obtain m' e' where n: "norm m e = (m', e')" by (cases "norm m e")
  from norm_spec [OF False n] have "m' \<noteq> 0" by simp
  then show ?thesis using n by (simp add: mk_def canon_def)
qed

lemma jsadd_canon: "nonneg a \<Longrightarrow> nonneg b \<Longrightarrow> canon (jsadd a b)"
proof (cases a; cases b)
  fix m1 e1 m2 e2
  assume ab: "a = Fin m1 e1" "b = Fin m2 e2" and nn: "nonneg a" "nonneg b"
  have "0 \<le> m1 * 2 ^ nat (e1 - min e1 e2) + m2 * 2 ^ nat (e2 - min e1 e2)"
    using ab nn by simp
  then have "\<not> m1 * 2 ^ nat (e1 - min e1 e2) + m2 * 2 ^ nat (e2 - min e1 e2) < 0"
    by simp
  then show "canon (jsadd a b)"
    unfolding ab by (simp add: Let_def mk_False_canon)
qed (simp_all add: canon_def)

lemma totalSpending_snoc: "totalSpending (xs @ [x]) = jsadd (totalSpending xs) (amt x)"
  by (simp add: totalSpending_def)

lemma totalSpending_canon:
  "\<forall>x \<in> set xs. nonneg (amt x) \<Longrightarrow> canon (totalSpending xs)"
proof (induction xs rule: rev_induct)
  case Nil
  then show ?case by (simp add: totalSpending_def canon_def)
next
  case (snoc x xs)
  then have "canon (totalSpending xs)" by simp
  then have "nonneg (totalSpending xs)" by (simp add: canon_def)
  then show ?case
    using snoc.prems by (simp add: totalSpending_snoc jsadd_canon)
qed

lemma map_of_addToCategory:
  assumes ni: "\<not> inherited (cat x)"
    and cur: "map_of ob (cat x) = Some (Num t) \<or> (map_of ob (cat x) = None \<and> t = Fin 0 0)"
    and can: "falsy t \<longrightarrow> t = Fin 0 0"
  shows "map_of (addToCategory ob x) = (map_of ob)(cat x \<mapsto> Num (jsadd t (amt x)))"
proof -
  have np: "cat x \<noteq> ''__proto__''" "cat x \<notin> set objectPrototypeFunctions"
    using ni by (simp_all add: inherited_def)
  show ?thesis
  proof (cases "falsy t")
    case True
    then have t: "t = Fin 0 0" using can by simp
    have "\<not> truthy (getProp ob (cat x))"
      using cur np t by (auto simp add: getProp_def)
    then show ?thesis
      using np t by (simp add: addToCategory_def initCategory_def setProp_def getProp_def
          map_of_putOwn)
  next
    case False
    then have "map_of ob (cat x) = Some (Num t)" using cur by auto
    then show ?thesis
      using np False by (simp add: addToCategory_def initCategory_def setProp_def getProp_def
          map_of_putOwn)
  qed
qed

lemma subtotals_by_category:
  assumes "\<forall>x \<in> set xs. \<not> inherited (cat x) \<and> nonneg (amt x)"
  shows "map_of (categoryTotals xs) c
         = (if c \<in> cat ` set xs
            then Some (Num (totalSpending (filter (\<lambda>x. cat x = c) xs))) else None)"
  using assms
proof (induction xs arbitrary: c rule: rev_induct)
  case Nil
  then show ?case by (simp add: categoryTotals_def)
next
  case (snoc x xs)
  define t where "t = totalSpending (filter (\<lambda>y. cat y = cat x) xs)"
  have ih: "\<And>c. map_of (categoryTotals xs) c
         = (if c \<in> cat ` set xs
            then Some (Num (totalSpending (filter (\<lambda>x. cat x = c) xs))) else None)"
    using snoc by simp
  have "canon t"
    unfolding t_def using snoc.prems by (intro totalSpending_canon) simp
  then have can: "falsy t \<longrightarrow> t = Fin 0 0" by (simp add: canon_def)
  have emp: "filter (\<lambda>y. cat y = cat x) xs = []" if "cat x \<notin> cat ` set xs"
  proof -
    have "\<forall>y \<in> set xs. cat y \<noteq> cat x" using that by (metis imageI)
    then show ?thesis by (simp add: filter_empty_conv)
  qed
  have cur: "map_of (categoryTotals xs) (cat x) = Some (Num t)
             \<or> (map_of (categoryTotals xs) (cat x) = None \<and> t = Fin 0 0)"
    using ih [of "cat x"] emp by (auto simp add: t_def totalSpending_def)
  have ni: "\<not> inherited (cat x)" using snoc.prems by simp
  have step: "map_of (categoryTotals (xs @ [x]))
              = (map_of (categoryTotals xs))(cat x \<mapsto> Num (jsadd t (amt x)))"
    using map_of_addToCategory [OF ni cur can] by (simp add: categoryTotals_def)
  show ?case
    by (simp add: step ih totalSpending_snoc t_def)
qed

text \<open>
  C6. The total is the sum of the amounts and \<open>by_category\<close> maps each category to
  the sum of the amounts of its records. The program keeps the subtotals in an object
  literal, so a category that is the name of a property of \<open>Object.prototype\<close> does
  not start at 0: under \<open>constructor\<close> the loop finds the inherited function and
  appends the amount to its text, the subtotal is a string, and rendering the summary
  throws; under \<open>__proto__\<close> nothing is stored at all. The total is 5 in both cases.
\<close>

theorem inherited_category_subtotal:
  "totalSpending [spent 1 ''5'' ''constructor''] = Fin 5 0
   \<and> categoryTotals [spent 1 ''5'' ''constructor''] = [(''constructor'', Str)]
   \<and> summaryLines toFixed2 (Object_entries (categoryTotals [spent 1 ''5'' ''constructor'']))
       = Inl TypeError
   \<and> categoryTotals [spent 1 ''5'' ''__proto__''] = []"
  by (simp add: totals_eval number_eval spent_eval)

text \<open>
  C9, as stated: the categories are presented in the order of their first appearance.
  A category that is a decimal numeral is presented before the others: \<open>Rent\<close> appears
  first in the input and \<open>2024\<close> first in the summary.
\<close>

theorem numeric_category_first:
  "firstAppearances (map cat [spent 2 ''800'' ''Rent'', spent 1 ''25'' ''2024''])
     = [''Rent'', ''2024'']
   \<and> map fst (Object_entries (categoryTotals [spent 2 ''800'' ''Rent'', spent 1 ''25'' ''2024'']))
       = [''2024'', ''Rent'']"
  by (simp add: totals_eval number_eval spent_eval firstAppearances_def)

text \<open>
  C9, amended: the categories that are array indices (canonical decimal numerals below
  \<open>2 ^ 32 - 1\<close>) are presented first, in ascending numeric order, and the others after
  them in the order of their first appearance; with no such category the order is that
  of first appearance. The categories are the bucket names (\<open>Uncategorized\<close> for an
  empty category), none of them the name of a property of \<open>Object.prototype\<close>.
\<close>

theorem category_order:
  assumes "\<forall>x \<in> set xs. \<not> inherited (cat x)"
  shows "map fst (Object_entries (categoryTotals xs))
         = sort_key decimalDigits (filter isArrayIndex (firstAppearances (map cat xs)))
             @ filter (\<lambda>k. \<not> isArrayIndex k) (firstAppearances (map cat xs))
       \<and> ((\<forall>x \<in> set xs. \<not> isArrayIndex (cat x)) \<longrightarrow>
           map fst (Object_entries (categoryTotals xs)) = firstAppearances (map cat xs))"
proof -
  have a: "map fst (Object_entries (categoryTotals xs))
         = sort_key decimalDigits (filter isArrayIndex (firstAppearances (map cat xs)))
             @ filter (\<lambda>k. \<not> isArrayIndex k) (firstAppearances (map cat xs))"
    by (simp add: keys_Object_entries keys_categoryTotals [OF assms])
  have "map fst (Object_entries (categoryTotals xs)) = firstAppearances (map cat xs)"
    if n: "\<forall>x \<in> set xs. \<not> isArrayIndex (cat x)"
  proof -
    have "\<forall>k \<in> set (firstAppearances (map cat xs)). \<not> isArrayIndex k"
      using n by (auto simp add: set_firstAppearances)
    then have "filter isArrayIndex (firstAppearances (map cat xs)) = []"
      and "filter (\<lambda>k. \<not> isArrayIndex k) (firstAppearances (map cat xs))
           = firstAppearances (map cat xs)"
      by (simp_all add: filter_empty_conv)
    then show ?thesis using a by simp
  qed
  then show ?thesis using a by blast
qed

theorem category_order_witness:
  "list_all (\<lambda>x. \<not> inherited (cat x))
     [spent 3 ''800'' ''Rent'', spent 2 ''25'' ''2024'', spent 1 ''5'' ''Rent'']
   \<and> map fst (Object_entries (categoryTotals
         [spent 3 ''800'' ''Rent'', spent 2 ''25'' ''2024'', spent 1 ''5'' ''Rent'']))
       = [''2024'', ''Rent'']
   \<and> list_all (\<lambda>x. \<not> inherited (cat x) \<and> \<not> isArrayIndex (cat x))
         [spent 2 ''7.25'' ''Food'', spent 1 ''20.00'' ''Transport'', spent 0 ''5'' ''Food'']
   \<and> map fst (Object_entries (categoryTotals
         [spent 2 ''7.25'' ''Food'', spent 1 ''20.00'' ''Transport'', spent 0 ''5'' ''Food'']))
       = [''Food'', ''Transport'']"
proof -
  have h1: "\<forall>x \<in> set [spent 3 ''800'' ''Rent'', spent 2 ''25'' ''2024'', spent 1 ''5'' ''Rent''].
      \<not> inherited (cat x)"
    by (simp add: spent_def cat_def inherited_def objectPrototypeFunctions_def)
  have h2: "\<forall>x \<in> set [spent 2 ''7.25'' ''Food'', spent 1 ''20.00'' ''Transport'', spent 0 ''5'' ''Food''].
      \<not> inherited (cat x)"
    by (simp add: spent_def cat_def inherited_def objectPrototypeFunctions_def)
  have h3: "\<forall>x \<in> set [spent 2 ''7.25'' ''Food'', spent 1 ''20.00'' ''Transport'', spent 0 ''5'' ''Food''].
      \<not> isArrayIndex (cat x)"
    by (simp add: spent_def cat_def isArrayIndex_def isDigit_def)
  have f1: "firstAppearances (map cat
        [spent 3 ''800'' ''Rent'', spent 2 ''25'' ''2024'', spent 1 ''5'' ''Rent''])
      = [''Rent'', ''2024'']"
    by (simp add: firstAppearances_def spent_def cat_def)
  have f2: "firstAppearances (map cat
        [spent 2 ''7.25'' ''Food'', spent 1 ''20.00'' ''Transport'', spent 0 ''5'' ''Food''])
      = [''Food'', ''Transport'']"
    by (simp add: firstAppearances_def spent_def cat_def)
  have ix: "isArrayIndex ''2024''" "\<not> isArrayIndex ''Rent''"
    by (simp_all add: isArrayIndex_def isDigit_def decimalDigits_def digitVal_def)
  have r1: "map fst (Object_entries (categoryTotals
         [spent 3 ''800'' ''Rent'', spent 2 ''25'' ''2024'', spent 1 ''5'' ''Rent'']))
       = [''2024'', ''Rent'']"
    using category_order [OF h1] unfolding f1 by (simp add: ix)
  have r2: "map fst (Object_entries (categoryTotals
         [spent 2 ''7.25'' ''Food'', spent 1 ''20.00'' ''Transport'', spent 0 ''5'' ''Food'']))
       = [''Food'', ''Transport'']"
    using category_order [OF h2] h3 unfolding f2 by blast
  show ?thesis
    using h1 h2 h3 r1 r2 by (simp add: list_all_iff)
qed

lemma map_of_conc: "map_of (conc k al) c = map_option (\<lambda>m. Num (scaled k m)) (map_of al c)"
  by (induction al) (auto simp add: conc_def)

lemma putOwn_conc: "putOwn (conc k al) c (Num (scaled k m)) = conc k (putOwn al c m)"
  by (induction al) (auto simp add: conc_def)

lemma held_le: "held al c \<le> sum_list (map snd al)"
  by (induction al) (auto simp add: held_def split: option.splits)

lemma sum_putOwn: "sum_list (map snd (putOwn al c (held al c + n))) = sum_list (map snd al) + n"
  by (induction al) (auto simp add: held_def split: option.splits)

lemma getProp_conc:
  "\<not> inherited c \<Longrightarrow>
   getProp (conc k al) c = (case map_of al c of None \<Rightarrow> Undefined | Some m \<Rightarrow> Num (scaled k m))"
  by (simp add: getProp_def inherited_def map_of_conc split: option.split)

lemma addToCategory_conc:
  assumes ni: "\<not> inherited (cat x)" and am: "amt x = scaled k n"
    and bound: "sum_list (map snd al) + n < 2 ^ 53"
  shows "addToCategory (conc k al) x = conc k (putOwn al (cat x) (held al (cat x) + n))"
proof -
  have np: "cat x \<noteq> ''__proto__''" using ni by (simp add: inherited_def)
  have n53: "n < 2 ^ 53" using bound by simp
  have zero: "Num (Fin 0 0) = Num (scaled k 0)" by (simp add: scaled_0)
  have fresh: "setProp (putOwn (conc k al) (cat x) (Num (scaled k 0))) (cat x)
                 (plus_number (getProp (putOwn (conc k al) (cat x) (Num (scaled k 0))) (cat x))
                    (scaled k n))
               = conc k (putOwn al (cat x) n)"
    using ni n53
    by (simp add: setProp_def np putOwn_conc getProp_conc map_of_putOwn jsadd_scaled
        putOwn_putOwn)
  show ?thesis
  proof (cases "map_of al (cat x)")
    case None
    then show ?thesis
      using ni fresh
      by (simp add: addToCategory_def initCategory_def getProp_conc am held_def setProp_def np
          zero)
  next
    case (Some m)
    have "m = held al (cat x)" using Some by (simp add: held_def)
    then have m: "m + n < 2 ^ 53" "m < 2 ^ 53"
      using held_le [of al "cat x"] bound by simp_all
    show ?thesis
    proof (cases "m = 0")
      case True
      then show ?thesis
        using ni fresh Some
        by (simp add: addToCategory_def initCategory_def getProp_conc am held_def setProp_def
            np zero falsy_scaled)
    next
      case False
      then have "truthy (Num (scaled k m))" using m by (simp add: falsy_scaled)
      then show ?thesis
        using ni Some m
        by (simp add: addToCategory_def initCategory_def getProp_conc am held_def setProp_def
            np jsadd_scaled putOwn_conc)
    qed
  qed
qed
lemma amt_scaled: "exp_amount x = scaled k n \<Longrightarrow> n < 2 ^ 53 \<Longrightarrow> amt x = scaled k n"
  by (auto simp add: amt_def falsy_scaled scaled_0)

lemma foldl_addToCategory_conc:
  assumes "map exp_amount xs = map (scaled k) ns"
    and "\<forall>x \<in> set xs. \<not> inherited (cat x)"
    and "sum_list (map snd al) + sum_list ns < 2 ^ 53"
  shows "\<exists>al'. foldl addToCategory (conc k al) xs = conc k al'
               \<and> sum_list (map snd al') = sum_list (map snd al) + sum_list ns"
  using assms
proof (induction xs arbitrary: al ns)
  case Nil
  then show ?case by auto
next
  case (Cons x xs)
  then obtain n ns' where ns: "ns = n # ns'" by (cases ns) auto
  have am: "amt x = scaled k n" using Cons.prems ns by (auto intro: amt_scaled)
  have step: "addToCategory (conc k al) x = conc k (putOwn al (cat x) (held al (cat x) + n))"
    using Cons.prems ns by (intro addToCategory_conc am) auto
  have "\<exists>al'. foldl addToCategory (conc k (putOwn al (cat x) (held al (cat x) + n))) xs
                 = conc k al'
          \<and> sum_list (map snd al')
              = sum_list (map snd (putOwn al (cat x) (held al (cat x) + n))) + sum_list ns'"
    using Cons.prems ns by (intro Cons.IH) (auto simp add: sum_putOwn)
  then show ?case using step ns by (auto simp add: sum_putOwn)
qed

lemma foldl_jsadd_scaled:
  assumes "map exp_amount xs = map (scaled k) ns" and "a + sum_list ns < 2 ^ 53"
  shows "foldl (\<lambda>acc x. jsadd acc (amt x)) (scaled k a) xs = scaled k (a + sum_list ns)"
  using assms
proof (induction xs arbitrary: a ns)
  case Nil
  then show ?case by auto
next
  case (Cons x xs)
  then obtain n ns' where ns: "ns = n # ns'" by (cases ns) auto
  have am: "amt x = scaled k n" using Cons.prems ns by (auto intro: amt_scaled)
  have "foldl (\<lambda>acc x. jsadd acc (amt x)) (scaled k (a + n)) xs
          = scaled k (a + n + sum_list ns')"
    using Cons.prems ns by (intro Cons.IH) auto
  then show ?case using Cons.prems ns am by (simp add: jsadd_scaled add.assoc)
qed

lemma insort_key_map:
  "insort_key f (g x) (map g xs) = map g (insort_key (\<lambda>y. f (g y)) x xs)"
  by (induction xs) auto

lemma sort_key_map: "sort_key f (map g xs) = map g (sort_key (\<lambda>y. f (g y)) xs)"
  by (induction xs) (auto simp add: insort_key_map)

lemma Object_entries_conc: "Object_entries (conc k al) = conc k (Object_entries al)"
  by (simp add: Object_entries_def conc_def filter_map comp_def sort_key_map)

lemma sum_insort_key: "sum_list (map h (insort_key f x xs)) = h x + sum_list (map h xs)"
  for h :: "'a \<Rightarrow> nat"
  by (induction xs) auto

lemma sum_sort_key: "sum_list (map h (sort_key f xs)) = sum_list (map h xs)"
  for h :: "'a \<Rightarrow> nat"
  by (induction xs) (auto simp add: sum_insort_key)

lemma sum_partition:
  "sum_list (map h (filter P xs)) + sum_list (map h (filter (\<lambda>x. \<not> P x) xs))
   = sum_list (map h xs)"
  for h :: "'a \<Rightarrow> nat"
  by (induction xs) auto

lemma sum_Object_entries: "sum_list (map snd (Object_entries al)) = sum_list (map snd al)"
  for al :: "(string \<times> nat) list"
  by (simp add: Object_entries_def sum_sort_key sum_partition)

lemma foldl_plus_val_scaled:
  "a + sum_list ms < 2 ^ 53 \<Longrightarrow>
   foldl plus_val (Num (scaled k a)) (map (\<lambda>m. Num (scaled k m)) ms)
   = Num (scaled k (a + sum_list ms))"
  by (induction ms arbitrary: a) (auto simp add: jsadd_scaled add.assoc)


text \<open>
  C10, as stated: the total equals the sum of the per-category subtotals. The
  additions round to 53 bits and are made in two different orders: for the amounts
  0.1 (Food), 0.2 and 0.3 (Fun) the total is 0.6000000000000001 and the subtotals 0.1
  and 0.5 add up to 0.6.
\<close>

theorem rounded_totals_differ:
  "totalSpending [spent 3 ''0.1'' ''Food'', spent 2 ''0.2'' ''Fun'', spent 1 ''0.3'' ''Fun'']
     = Fin 1351079888211149 (- 51)
   \<and> categoryTotals [spent 3 ''0.1'' ''Food'', spent 2 ''0.2'' ''Fun'', spent 1 ''0.3'' ''Fun'']
       = [(''Food'', Num (Fin 3602879701896397 (- 55))), (''Fun'', Num (Fin 1 (- 1)))]
   \<and> sumOfSubtotals (categoryTotals
         [spent 3 ''0.1'' ''Food'', spent 2 ''0.2'' ''Fun'', spent 1 ''0.3'' ''Fun''])
       = Num (Fin 5404319552844595 (- 53))
   \<and> sumOfSubtotals (categoryTotals
         [spent 3 ''0.1'' ''Food'', spent 2 ''0.2'' ''Fun'', spent 1 ''0.3'' ''Fun''])
       \<noteq> Num (totalSpending
             [spent 3 ''0.1'' ''Food'', spent 2 ''0.2'' ''Fun'', spent 1 ''0.3'' ''Fun''])"
  by (simp add: totals_eval number_eval spent_eval)

text \<open>
  C10, amended: when every amount is a whole multiple of one power of two
  \<open>2 ^ - k\<close> and the amounts add up to less than \<open>2 ^ 53\<close> such multiples, so that no
  addition rounds, and no bucket name is the name of a property of
  \<open>Object.prototype\<close>, the total equals the sum of the per-category subtotals.
\<close>

theorem exact_totals_agree:
  assumes "map exp_amount xs = map (scaled k) ns" and "sum_list ns < 2 ^ 53"
    and "\<forall>x \<in> set xs. \<not> inherited (cat x)"
  shows "sumOfSubtotals (categoryTotals xs) = Num (totalSpending xs)
       \<and> totalSpending xs = scaled k (sum_list ns)"
proof -
  obtain al where al: "categoryTotals xs = conc k al" "sum_list (map snd al) = sum_list ns"
    using foldl_addToCategory_conc [OF assms(1) assms(3), of "[]"] assms(2)
    by (auto simp add: categoryTotals_def conc_def)
  have t: "totalSpending xs = scaled k (sum_list ns)"
    using foldl_jsadd_scaled [OF assms(1), of 0] assms(2)
    by (simp add: totalSpending_def scaled_0)
  have "sumOfSubtotals (categoryTotals xs)
          = foldl plus_val (Num (scaled k 0))
              (map (\<lambda>m. Num (scaled k m)) (map snd (Object_entries al)))"
    unfolding sumOfSubtotals_def al(1) Object_entries_conc
    by (simp add: conc_def comp_def scaled_0)
  also have "\<dots> = Num (scaled k (0 + sum_list (map snd (Object_entries al))))"
    using assms(2) al(2) by (intro foldl_plus_val_scaled) (simp add: sum_Object_entries)
  finally show ?thesis using t al(2) by (simp add: sum_Object_entries)
qed

theorem exact_totals_agree_witness:
  "map exp_amount [spent 3 ''12.50'' ''Food'', spent 2 ''7.25'' ''Food'', spent 1 ''20.00'' ''Transport'']
     = map (scaled 2) [50, 29, 80]
   \<and> sum_list [50, 29, 80] < (2::nat) ^ 53
   \<and> list_all (\<lambda>x. \<not> inherited (cat x))
         [spent 3 ''12.50'' ''Food'', spent 2 ''7.25'' ''Food'', spent 1 ''20.00'' ''Transport'']
   \<and> sumOfSubtotals (categoryTotals
         [spent 3 ''12.50'' ''Food'', spent 2 ''7.25'' ''Food'', spent 1 ''20.00'' ''Transport''])
       = Num (Fin 159 (- 2))
   \<and> totalSpending [spent 3 ''12.50'' ''Food'', spent 2 ''7.25'' ''Food'', spent 1 ''20.00'' ''Transport'']
       = Fin 159 (- 2)"
proof -
  have sc: "scaled 2 50 = Fin 25 (- 1)" "scaled 2 29 = Fin 29 (- 2)" "scaled 2 80 = Fin 5 2"
    "scaled 2 159 = Fin 159 (- 2)"
    by (simp_all add: scaled_def number_eval)
  have h1: "map exp_amount
      [spent 3 ''12.50'' ''Food'', spent 2 ''7.25'' ''Food'', spent 1 ''20.00'' ''Transport'']
     = map (scaled 2) [50, 29, 80]"
    by (simp add: spent_eval sc)
  have h2: "sum_list [50, 29, 80] < (2::nat) ^ 53" by simp
  have h3: "\<forall>x \<in> set [spent 3 ''12.50'' ''Food'', spent 2 ''7.25'' ''Food'', spent 1 ''20.00'' ''Transport''].
      \<not> inherited (cat x)"
    by (simp add: spent_def cat_def inherited_def objectPrototypeFunctions_def)
  show ?thesis
    using h1 h2 h3 exact_totals_agree [OF h1 h2 h3] by (simp add: sc list_all_iff)
qed

end
